theory Spec2Isabelle
  imports Complex_Main
begin

section \<open>Data model\<close>

text \<open>
  The repository is a set of serverless request handlers (one \<^verbatim>\<open>handler(req, res)\<close>
  per endpoint) in front of a payment provider. Every handler is embedded as a function
  from the request, the environment, the clock reading and the provider's state to the
  response, the provider's new state and the list of provider calls it made, in order.
  Response headers and console output are left out. Where the repository holds an earlier
  copy of a handler next to the current one, the current one is embedded.

  Values of the provider, with the fields the handlers read. Timestamps are integers:
  \<open>created\<close>, \<open>current_period_end\<close> and \<open>trial_end\<close> count seconds since the epoch, a
  \<^verbatim>\<open>Date\<close> is its number of milliseconds. A \<^verbatim>\<open>Date\<close> holds at most \<open>8.64e15\<close>
  milliseconds in absolute value; beyond that it is invalid and arithmetic on it gives
  NaN, which the comparisons of the refund window take into account (see
  \<open>within_refund_window\<close>). Other numbers are modelled exactly, as rationals. A string
  is the list of its code units, each at most \<open>U+00FF\<close>.
\<close>

datatype exn = Exn (message: string)

record subscription =
  sub_id :: string
  customer :: string
  status :: string
  created :: int
  current_period_end :: int
  cancel_at_period_end :: bool
  trial_end :: "int option"

record customer_obj =
  cus_id :: string
  cus_email :: string

record invoice =
  charge :: "string option"

record refund =
  refund_id :: string
  amount :: int
  currency :: string

record event =
  event_type :: string
  session_mode :: "string option"
  session_subscription :: "string option"

text \<open>
  The provider client (\<^verbatim>\<open>stripe\<close>) is a parameter: its code is not part of the
  repository. \<open>'w\<close> is the provider's state. A read returns a value or throws; a write
  also returns the new state. The arguments are the ones the handlers pass:
  \<^verbatim>\<open>customers.list({email, limit})\<close>, \<^verbatim>\<open>subscriptions.list({customer, limit})\<close>,
  \<^verbatim>\<open>invoices.list({subscription, limit, status})\<close>, \<^verbatim>\<open>refunds.create({charge, reason})\<close>,
  \<^verbatim>\<open>subscriptions.update(id, {cancel_at_period_end})\<close> and
  \<^verbatim>\<open>webhooks.constructEvent(body, signature, secret)\<close>.
\<close>

record 'w stripe =
  subscriptions_retrieve :: "'w \<Rightarrow> string \<Rightarrow> exn + subscription"
  customers_list :: "'w \<Rightarrow> string \<Rightarrow> nat \<Rightarrow> exn + customer_obj list"
  subscriptions_list :: "'w \<Rightarrow> string \<Rightarrow> nat \<Rightarrow> exn + subscription list"
  invoices_list :: "'w \<Rightarrow> string \<Rightarrow> nat \<Rightarrow> string option \<Rightarrow> exn + invoice list"
  refunds_create :: "'w \<Rightarrow> string \<Rightarrow> string \<Rightarrow> (exn + refund) \<times> 'w"
  subscriptions_cancel :: "'w \<Rightarrow> string \<Rightarrow> (exn + subscription) \<times> 'w"
  subscriptions_update :: "'w \<Rightarrow> string \<Rightarrow> bool \<Rightarrow> (exn + subscription) \<times> 'w"
  webhooks_constructEvent :: "string \<Rightarrow> string option \<Rightarrow> string \<Rightarrow> exn + event"

text \<open>
  The administrative e-mails posted to the send-email endpoint, by subject; the refund
  subjects carry the amount. The body text is not modelled. A failed post is logged and
  has no other effect in any handler.
\<close>

datatype notification =
  CancelledAndRefunded rat
  | Reactivated
  | CancellationRequest
  | TrialCancellation
  | RefundRequest rat

text \<open>The calls a handler makes, recorded in the order it makes them.\<close>

datatype call =
  SubscriptionsRetrieve string
  | CustomersList string nat
  | SubscriptionsList string nat
  | InvoicesList string nat "string option"
  | RefundsCreate string string
  | SubscriptionsCancel string
  | SubscriptionsUpdate string bool
  | SendEmail notification

text \<open>
  Requests. The body fields have the types of the external interface: strings that may
  be absent, and a boolean. \<open>JDate ms\<close> stands for the ISO-8601 string
  (\<^verbatim>\<open>toISOString\<close>) of the instant \<open>ms\<close>; \<open>JObject\<close> for a value that is an object.
\<close>

record request =
  req_method :: string
  subscriptionId :: "string option"
  email :: "string option"
  reason :: "string option"
  action :: "string option"
  autoRefund :: bool
  licenseKey :: "string option"

record webhook_request =
  wh_method :: string
  raw_body :: string
  stripe_signature :: "string option"

record env =
  FORCE_TEST_MODE :: "string option"
  TEST_STRIPE_SECRET_KEY :: "string option"
  STRIPE_SECRET_KEY :: "string option"
  STRIPE_WEBHOOK_SECRET :: "string option"

datatype json = JNull | JBool bool | JNum rat | JStr string | JDate int | JObject

datatype response = Json nat "(string \<times> json) list" | End nat

section \<open>JavaScript helpers\<close>

text \<open>Truthiness of a string that may be undefined: the empty string is falsy.\<close>

definition truthy :: "string option \<Rightarrow> bool" where
  "truthy v = (case v of None \<Rightarrow> False | Some s \<Rightarrow> s \<noteq> [])"

definition str_of :: "string option \<Rightarrow> string" where
  "str_of v = (case v of None \<Rightarrow> [] | Some s \<Rightarrow> s)"

fun js_truthy :: "json \<Rightarrow> bool" where
  "js_truthy JNull = False"
| "js_truthy (JBool b) = b"
| "js_truthy (JNum n) = (n \<noteq> 0)"
| "js_truthy (JStr s) = (s \<noteq> [])"
| "js_truthy (JDate d) = True"
| "js_truthy JObject = True"

text \<open>
  \<^verbatim>\<open>toLowerCase\<close> on code units up to \<open>U+00FF\<close>: the capitals are \<open>A\<close> to \<open>Z\<close>
  (65 to 90) and \<open>U+00C0\<close> to \<open>U+00DE\<close> (192 to 222) without the multiplication sign
  \<open>U+00D7\<close> (215); each has its small letter 32 places up.
\<close>

definition lower_char :: "char \<Rightarrow> char" where
  "lower_char c =
     (let n = (of_char c :: nat)
      in if (65 \<le> n \<and> n \<le> 90) \<or> (192 \<le> n \<and> n \<le> 222 \<and> n \<noteq> 215) then char_of (n + 32)
         else c)"

definition toLowerCase :: "string \<Rightarrow> string" where
  "toLowerCase s = map lower_char s"

text \<open>
  \<^verbatim>\<open>toUpperCase\<close> as the refund handler applies it to a currency code, which the
  provider gives in the letters \<open>a\<close> to \<open>z\<close>.
\<close>

definition upper_char :: "char \<Rightarrow> char" where
  "upper_char c = (let n = (of_char c :: nat) in if 97 \<le> n \<and> n \<le> 122 then char_of (n - 32) else c)"

definition toUpperCase :: "string \<Rightarrow> string" where
  "toUpperCase s = map upper_char s"

text \<open>
  \<^verbatim>\<open>trim\<close> removes white space and line terminators at both ends; up to \<open>U+00FF\<close>
  these are tab, line feed, vertical tab, form feed, carriage return (9 to 13), space
  (32) and the no-break space \<open>U+00A0\<close> (160).
\<close>

definition is_space :: "char \<Rightarrow> bool" where
  "is_space c = (let n = (of_char c :: nat) in (9 \<le> n \<and> n \<le> 13) \<or> n = 32 \<or> n = 160)"

definition trim :: "string \<Rightarrow> string" where
  "trim s = rev (dropWhile is_space (rev (dropWhile is_space s)))"

text \<open>Decimal rendering of an integer, as a template literal prints \<^verbatim>\<open>Math.floor(x)\<close>.\<close>

fun digits :: "nat \<Rightarrow> string" where
  "digits n = (if n < 10 then [char_of (48 + n)] else digits (n div 10) @ [char_of (48 + n mod 10)])"

declare digits.simps [simp del]

definition show_int :: "int \<Rightarrow> string" where
  "show_int i = (if i < 0 then CHR ''-'' # digits (nat (- i)) else digits (nat i))"

section \<open>Shared pieces of the handlers\<close>

text \<open>
  \<^verbatim>\<open>forceTestMode ? process.env.TEST_STRIPE_SECRET_KEY : process.env.STRIPE_SECRET_KEY\<close>
  with \<^verbatim>\<open>forceTestMode = process.env.FORCE_TEST_MODE === 'true'\<close>.
\<close>

definition stripeSecretKey :: "env \<Rightarrow> string option" where
  "stripeSecretKey e =
     (if FORCE_TEST_MODE e = Some ''true'' then TEST_STRIPE_SECRET_KEY e else STRIPE_SECRET_KEY e)"

definition error_body :: "string \<Rightarrow> (string \<times> json) list" where
  "error_body msg = [(''error'', JStr msg)]"

text \<open>The outer \<^verbatim>\<open>catch (error)\<close> of the cancel and refund handlers.\<close>

definition internal_server_error :: "exn \<Rightarrow> response" where
  "internal_server_error ex =
     Json 500 [(''error'', JStr ''Internal server error''), (''details'', JStr (message ex))]"

text \<open>
  \<^verbatim>\<open>daysSincePurchase = (now - new Date(subscription.created * 1000)) / (1000 * 60 * 60 * 24)\<close>,
  \<open>now\<close> in milliseconds: the value of the quotient when both dates are valid.
\<close>

definition daysSincePurchase :: "int \<Rightarrow> subscription \<Rightarrow> rat" where
  "daysSincePurchase now s = of_int (now - created s * 1000) / (1000 * 60 * 60 * 24)"

text \<open>
  A time value is valid for a \<^verbatim>\<open>Date\<close> when it is at most \<open>8.64e15\<close> milliseconds from
  the epoch. With an invalid date the quotient above is NaN, and both
  \<^verbatim>\<open>daysSincePurchase <= 7\<close> and \<^verbatim>\<open>daysSincePurchase > 7\<close> are false. These are the
  two comparisons as the handlers evaluate them. For valid dates the double quotient
  and the exact one stand on the same side of 7: the elapsed milliseconds up to
  \<open>2^53\<close> are exact, and a quotient other than 7 is further from 7 than the rounding.
\<close>

definition valid_time :: "int \<Rightarrow> bool" where
  "valid_time t = (\<bar>t\<bar> \<le> 8640000000000000)"

definition within_refund_window :: "int \<Rightarrow> subscription \<Rightarrow> bool" where
  "within_refund_window now s =
     (valid_time now \<and> valid_time (created s * 1000) \<and> daysSincePurchase now s \<le> 7)"

definition refund_window_expired :: "int \<Rightarrow> subscription \<Rightarrow> bool" where
  "refund_window_expired now s =
     (valid_time now \<and> valid_time (created s * 1000) \<and> daysSincePurchase now s > 7)"

text \<open>
  "Find the subscription", as the cancel and the refund handler both write it: by id when
  \<^verbatim>\<open>subscriptionId\<close> is truthy (a failed retrieve is answered 404), otherwise the first
  subscription listed for the first customer listed for the e-mail as given. The result
  is an exception for the outer catch, an early response, or the subscription.
  \<open>no_sub\<close> is the message of the last 404, the only difference between the two copies.
\<close>

definition locate_subscription ::
  "string \<Rightarrow> 'w stripe \<Rightarrow> 'w \<Rightarrow> request \<Rightarrow> (exn + (response + subscription)) \<times> call list" where
  "locate_subscription no_sub P w r =
     (if truthy (subscriptionId r) then
        (case subscriptions_retrieve P w (str_of (subscriptionId r)) of
           Inl e \<Rightarrow> (Inr (Inl (Json 404 (error_body ''Subscription not found''))),
                      [SubscriptionsRetrieve (str_of (subscriptionId r))])
         | Inr s \<Rightarrow> (Inr (Inr s), [SubscriptionsRetrieve (str_of (subscriptionId r))]))
      else
        (case customers_list P w (str_of (email r)) 1 of
           Inl e \<Rightarrow> (Inl e, [CustomersList (str_of (email r)) 1])
         | Inr [] \<Rightarrow> (Inr (Inl (Json 404 (error_body ''Customer not found''))),
                       [CustomersList (str_of (email r)) 1])
         | Inr (c # cs) \<Rightarrow>
             (case subscriptions_list P w (cus_id c) 1 of
                Inl e \<Rightarrow> (Inl e, [CustomersList (str_of (email r)) 1, SubscriptionsList (cus_id c) 1])
              | Inr [] \<Rightarrow> (Inr (Inl (Json 404 (error_body no_sub))),
                            [CustomersList (str_of (email r)) 1, SubscriptionsList (cus_id c) 1])
              | Inr (s # ss) \<Rightarrow>
                  (Inr (Inr s),
                   [CustomersList (str_of (email r)) 1, SubscriptionsList (cus_id c) 1]))))"

section \<open>The cancel-subscription handler\<close>

text \<open>
  The auto-refund block (\<^verbatim>\<open>if (autoRefund && action !== 'reactivate')\<close>). It returns the
  response of its early \<^verbatim>\<open>return\<close>, or \<open>None\<close> when control falls through to the
  period-end update: outside the window, without a paid invoice that has a charge, and
  after anything in its \<^verbatim>\<open>try\<close> has thrown.
\<close>

definition auto_refund ::
  "'w stripe \<Rightarrow> int \<Rightarrow> request \<Rightarrow> subscription \<Rightarrow> 'w \<Rightarrow> response option \<times> 'w \<times> call list" where
  "auto_refund P now r s w =
     (if autoRefund r \<and> action r \<noteq> Some ''reactivate'' then
        if within_refund_window now s then
          (case invoices_list P w (sub_id s) 1 (Some ''paid'') of
             Inl e \<Rightarrow> (None, w, [InvoicesList (sub_id s) 1 (Some ''paid'')])
           | Inr [] \<Rightarrow> (None, w, [InvoicesList (sub_id s) 1 (Some ''paid'')])
           | Inr (first_invoice # invs) \<Rightarrow>
               if truthy (charge first_invoice) then
                 (case refunds_create P w (str_of (charge first_invoice)) ''requested_by_customer'' of
                    (Inl e, w1) \<Rightarrow>
                      (None, w1,
                       [InvoicesList (sub_id s) 1 (Some ''paid''),
                        RefundsCreate (str_of (charge first_invoice)) ''requested_by_customer''])
                  | (Inr rf, w1) \<Rightarrow>
                      (case subscriptions_cancel P w1 (sub_id s) of
                         (Inl e, w2) \<Rightarrow>
                           (None, w2,
                            [InvoicesList (sub_id s) 1 (Some ''paid''),
                             RefundsCreate (str_of (charge first_invoice)) ''requested_by_customer'',
                             SubscriptionsCancel (sub_id s)])
                       | (Inr cancelled, w2) \<Rightarrow>
                           (Some (Json 200
                              [(''success'', JBool True),
                               (''refunded'', JBool True),
                               (''refundAmount'', JNum (of_int (amount rf) / 100)),
                               (''message'', JStr ''Subscription cancelled and refunded successfully''),
                               (''subscriptionId'', JStr (sub_id s))]),
                            w2,
                            [InvoicesList (sub_id s) 1 (Some ''paid''),
                             RefundsCreate (str_of (charge first_invoice)) ''requested_by_customer'',
                             SubscriptionsCancel (sub_id s),
                             SendEmail (CancelledAndRefunded (of_int (amount rf) / 100))])))
               else (None, w, [InvoicesList (sub_id s) 1 (Some ''paid'')]))
        else (None, w, [])
      else (None, w, []))"

text \<open>
  The update that follows: \<^verbatim>\<open>cancel_at_period_end: false\<close> for
  \<^verbatim>\<open>action === 'reactivate'\<close>, \<^verbatim>\<open>true\<close> otherwise, then the e-mail and the 200
  response built from the subscription the provider returned.
\<close>

definition update_response :: "bool \<Rightarrow> subscription \<Rightarrow> response" where
  "update_response reactivate u =
     Json 200
       [(''success'', JBool True),
        (''message'', JStr (if reactivate then ''Subscription reactivated successfully''
           else ''Subscription will be cancelled at the end of the current period'')),
        (''subscriptionId'', JStr (sub_id u)),
        (''cancelAtPeriodEnd'', JBool (cancel_at_period_end u)),
        (''currentPeriodEnd'', JNum (of_int (current_period_end u)))]"

definition period_end_update ::
  "'w stripe \<Rightarrow> request \<Rightarrow> subscription \<Rightarrow> 'w \<Rightarrow> (exn + response) \<times> 'w \<times> call list" where
  "period_end_update P r s w =
     (let reactivate = (action r = Some ''reactivate'') in
      case subscriptions_update P w (sub_id s) (\<not> reactivate) of
        (Inl e, w1) \<Rightarrow> (Inl e, w1, [SubscriptionsUpdate (sub_id s) (\<not> reactivate)])
      | (Inr u, w1) \<Rightarrow>
          (Inr (update_response reactivate u), w1,
           [SubscriptionsUpdate (sub_id s) (\<not> reactivate),
            SendEmail (if reactivate then Reactivated else CancellationRequest)]))"

text \<open>What the handler does once it holds the subscription.\<close>

definition cancel_located ::
  "'w stripe \<Rightarrow> int \<Rightarrow> request \<Rightarrow> subscription \<Rightarrow> 'w \<Rightarrow> response \<times> 'w \<times> call list" where
  "cancel_located P now r s w =
     (case auto_refund P now r s w of
        (Some resp, w1, c2) \<Rightarrow> (resp, w1, c2)
      | (None, w1, c2) \<Rightarrow>
          (case period_end_update P r s w1 of
             (Inl ex, w2, c3) \<Rightarrow> (internal_server_error ex, w2, c2 @ c3)
           | (Inr resp, w2, c3) \<Rightarrow> (resp, w2, c2 @ c3)))"

definition cancel_subscription_handler ::
  "'w stripe \<Rightarrow> env \<Rightarrow> int \<Rightarrow> request \<Rightarrow> 'w \<Rightarrow> response \<times> 'w \<times> call list" where
  "cancel_subscription_handler P e now r w =
     (if req_method r = ''OPTIONS'' then (End 200, w, [])
      else if req_method r \<noteq> ''POST'' then (Json 405 (error_body ''Method not allowed''), w, [])
      else if \<not> truthy (subscriptionId r) \<and> \<not> truthy (email r) then
        (Json 400 (error_body ''Subscription ID or email required''), w, [])
      else if \<not> truthy (stripeSecretKey e) then
        (Json 500 (error_body ''Server configuration error''), w, [])
      else
        (case locate_subscription ''No subscription found'' P w r of
           (Inl ex, c1) \<Rightarrow> (internal_server_error ex, w, c1)
         | (Inr (Inl resp), c1) \<Rightarrow> (resp, w, c1)
         | (Inr (Inr s), c1) \<Rightarrow>
             (case cancel_located P now r s w of (resp, w1, c2) \<Rightarrow> (resp, w1, c1 @ c2))))"

section \<open>The process-refund handler\<close>

text \<open>
  What the handler does once it holds the subscription: the window check, the invoice
  lookup (without a status filter), the trial branch, the charge check, then the refund,
  the immediate cancellation and the e-mail. Anything thrown here reaches the outer catch.
  The number of days in \<^verbatim>\<open>details\<close> is \<^verbatim>\<open>Math.floor\<close> of the quotient, which is the
  floor of the exact quotient while the elapsed time is at most \<open>2^53\<close> milliseconds.
\<close>

definition refund_located ::
  "'w stripe \<Rightarrow> int \<Rightarrow> subscription \<Rightarrow> 'w \<Rightarrow> (exn + response) \<times> 'w \<times> call list" where
  "refund_located P now s w =
     (if refund_window_expired now s then
        (Inr (Json 400
           [(''error'', JStr ''Refund window expired''),
            (''details'', JStr (''Refunds are only available within 7 days of purchase. Your subscription was created ''
                @ show_int (floor (daysSincePurchase now s)) @ '' days ago.''))]),
         w, [])
      else
        (case invoices_list P w (sub_id s) 1 None of
           Inl e \<Rightarrow> (Inl e, w, [InvoicesList (sub_id s) 1 None])
         | Inr [] \<Rightarrow>
             (Inr (Json 404 (error_body ''No payment found for this subscription'')), w,
              [InvoicesList (sub_id s) 1 None])
         | Inr (first_invoice # invs) \<Rightarrow>
             if status s = ''trialing'' then
               (case subscriptions_cancel P w (sub_id s) of
                  (Inl e, w1) \<Rightarrow>
                    (Inl e, w1, [InvoicesList (sub_id s) 1 None, SubscriptionsCancel (sub_id s)])
                | (Inr cancelled, w1) \<Rightarrow>
                    (Inr (Json 200
                       [(''success'', JBool True),
                        (''message'', JStr ''Trial subscription cancelled''),
                        (''subscriptionId'', JStr (sub_id s)),
                        (''cancelled'', JBool True)]),
                     w1,
                     [InvoicesList (sub_id s) 1 None, SubscriptionsCancel (sub_id s),
                      SendEmail TrialCancellation]))
             else if \<not> truthy (charge first_invoice) then
               (Inr (Json 404 (error_body ''No charge found to refund'')), w,
                [InvoicesList (sub_id s) 1 None])
             else
               (case refunds_create P w (str_of (charge first_invoice)) ''requested_by_customer'' of
                  (Inl e, w1) \<Rightarrow>
                    (Inl e, w1,
                     [InvoicesList (sub_id s) 1 None,
                      RefundsCreate (str_of (charge first_invoice)) ''requested_by_customer''])
                | (Inr rf, w1) \<Rightarrow>
                    (case subscriptions_cancel P w1 (sub_id s) of
                       (Inl e, w2) \<Rightarrow>
                         (Inl e, w2,
                          [InvoicesList (sub_id s) 1 None,
                           RefundsCreate (str_of (charge first_invoice)) ''requested_by_customer'',
                           SubscriptionsCancel (sub_id s)])
                     | (Inr cancelled, w2) \<Rightarrow>
                         (Inr (Json 200
                            [(''success'', JBool True),
                             (''message'', JStr ''Refund processed successfully''),
                             (''refundId'', JStr (refund_id rf)),
                             (''subscriptionId'', JStr (sub_id s)),
                             (''amount'', JNum (of_int (amount rf) / 100)),
                             (''currency'', JStr (toUpperCase (currency rf)))]),
                          w2,
                          [InvoicesList (sub_id s) 1 None,
                           RefundsCreate (str_of (charge first_invoice)) ''requested_by_customer'',
                           SubscriptionsCancel (sub_id s),
                           SendEmail (RefundRequest (of_int (amount rf) / 100))])))))"

definition process_refund_handler ::
  "'w stripe \<Rightarrow> env \<Rightarrow> int \<Rightarrow> request \<Rightarrow> 'w \<Rightarrow> response \<times> 'w \<times> call list" where
  "process_refund_handler P e now r w =
     (if req_method r = ''OPTIONS'' then (End 200, w, [])
      else if req_method r \<noteq> ''POST'' then (Json 405 (error_body ''Method not allowed''), w, [])
      else if \<not> truthy (subscriptionId r) \<and> \<not> truthy (email r) then
        (Json 400 (error_body ''Subscription ID or email required''), w, [])
      else if \<not> truthy (stripeSecretKey e) then
        (Json 500 (error_body ''Server configuration error''), w, [])
      else
        (case locate_subscription ''No subscription found for this customer'' P w r of
           (Inl ex, c1) \<Rightarrow> (internal_server_error ex, w, c1)
         | (Inr (Inl resp), c1) \<Rightarrow> (resp, w, c1)
         | (Inr (Inr s), c1) \<Rightarrow>
             (case refund_located P now s w of
                (Inl ex, w1, c2) \<Rightarrow> (internal_server_error ex, w1, c1 @ c2)
              | (Inr resp, w1, c2) \<Rightarrow> (resp, w1, c1 @ c2))))"

section \<open>The verify-license handler\<close>

definition is_active :: "subscription \<Rightarrow> bool" where
  "is_active sub = (status sub = ''active'' \<or> status sub = ''trialing'')"

text \<open>
  The loop \<^verbatim>\<open>for (const customer of customers.data)\<close>: list the customer's
  subscriptions, take the first active or trialing one and \<^verbatim>\<open>break\<close>, else go on.
\<close>

fun find_active_subscription ::
  "'w stripe \<Rightarrow> 'w \<Rightarrow> customer_obj list \<Rightarrow> (exn + subscription option) \<times> call list" where
  "find_active_subscription P w [] = (Inr None, [])"
| "find_active_subscription P w (c # cs) =
     (case subscriptions_list P w (cus_id c) 10 of
        Inl e \<Rightarrow> (Inl e, [SubscriptionsList (cus_id c) 10])
      | Inr subs \<Rightarrow>
          (case List.find is_active subs of
             Some activeSub \<Rightarrow> (Inr (Some activeSub), [SubscriptionsList (cus_id c) 10])
           | None \<Rightarrow>
               (case find_active_subscription P w cs of
                  (res, calls) \<Rightarrow> (res, SubscriptionsList (cus_id c) 10 # calls))))"

text \<open>
  The inner \<^verbatim>\<open>try\<close>/\<^verbatim>\<open>catch (e)\<close>: the key as a subscription id first; if that throws,
  the key lower-cased and trimmed as an e-mail, at most ten customers.
\<close>

definition locate_license ::
  "'w stripe \<Rightarrow> 'w \<Rightarrow> string \<Rightarrow> (exn + subscription option) \<times> call list" where
  "locate_license P w key =
     (case subscriptions_retrieve P w key of
        Inr s \<Rightarrow> (Inr (Some s), [SubscriptionsRetrieve key])
      | Inl e \<Rightarrow>
          (case customers_list P w (trim (toLowerCase key)) 10 of
             Inl e' \<Rightarrow> (Inl e', [SubscriptionsRetrieve key, CustomersList (trim (toLowerCase key)) 10])
           | Inr cs \<Rightarrow>
               (case find_active_subscription P w cs of
                  (res, calls) \<Rightarrow>
                    (res,
                     [SubscriptionsRetrieve key, CustomersList (trim (toLowerCase key)) 10] @ calls))))"

text \<open>
  The bindings in scope where the success response is built (the handler's parameters
  and its \<^verbatim>\<open>const\<close> and \<^verbatim>\<open>let\<close> declarations), and the evaluation of an identifier: one
  that has no binding throws a ReferenceError.
\<close>

definition verify_license_scope ::
  "env \<Rightarrow> int \<Rightarrow> string \<Rightarrow> subscription \<Rightarrow> (string \<times> json) list" where
  "verify_license_scope e now key s =
     [(''req'', JObject),
      (''res'', JObject),
      (''licenseKey'', JStr key),
      (''forceTestMode'', JBool (FORCE_TEST_MODE e = Some ''true'')),
      (''stripeSecretKey'', JStr (str_of (stripeSecretKey e))),
      (''stripe'', JObject),
      (''subscription'', JObject),
      (''expiryDate'', JDate (current_period_end s * 1000)),
      (''now'', JDate now)]"

definition read_identifier :: "(string \<times> json) list \<Rightarrow> string \<Rightarrow> exn + json" where
  "read_identifier scope x =
     (case map_of scope x of
        None \<Rightarrow> Inl (Exn (x @ '' is not defined''))
      | Some v \<Rightarrow> Inr v)"

text \<open>\<^verbatim>\<open>a || b\<close> on two identifiers: \<open>b\<close> is evaluated only when \<open>a\<close> is falsy.\<close>

definition or_identifiers :: "(string \<times> json) list \<Rightarrow> string \<Rightarrow> string \<Rightarrow> exn + json" where
  "or_identifiers scope a b =
     (case read_identifier scope a of
        Inl ex \<Rightarrow> Inl ex
      | Inr v \<Rightarrow> if js_truthy v then Inr v else read_identifier scope b)"

text \<open>
  The object literal of the "License is valid" response, its properties evaluated in
  order; \<^verbatim>\<open>email: customerEmail || normalizedLicenseKey\<close> is the only one that can throw.
\<close>

definition license_valid_body ::
  "(string \<times> json) list \<Rightarrow> subscription \<Rightarrow> exn + (string \<times> json) list" where
  "license_valid_body scope s =
     (case or_identifiers scope ''customerEmail'' ''normalizedLicenseKey'' of
        Inl ex \<Rightarrow> Inl ex
      | Inr em \<Rightarrow>
          Inr [(''valid'', JBool True),
               (''subscriptionId'', JStr (sub_id s)),
               (''customerId'', JStr (customer s)),
               (''status'', JStr (status s)),
               (''expiryDate'', JDate (current_period_end s * 1000)),
               (''currentPeriodEnd'', JNum (of_int (current_period_end s))),
               (''cancelAtPeriodEnd'', JBool (cancel_at_period_end s)),
               (''email'', em),
               (''created'', JNum (of_int (created s))),
               (''trialEnd'', (case trial_end s of None \<Rightarrow> JNull
                                | Some t \<Rightarrow> if t = 0 then JNull else JNum (of_int t)))])"

definition license_error :: response where
  "license_error = Json 500 [(''valid'', JBool False), (''error'', JStr ''Error verifying license key'')]"

definition verify_license_handler ::
  "'w stripe \<Rightarrow> env \<Rightarrow> int \<Rightarrow> request \<Rightarrow> 'w \<Rightarrow> response \<times> call list" where
  "verify_license_handler P e now r w =
     (if req_method r \<noteq> ''POST'' then (Json 405 (error_body ''Method not allowed''), [])
      else if \<not> truthy (licenseKey r) then (Json 400 (error_body ''License key required''), [])
      else if \<not> truthy (stripeSecretKey e) then
        (Json 500 (error_body ''Server configuration error''), [])
      else
        (case locate_license P w (str_of (licenseKey r)) of
           (Inl ex, calls) \<Rightarrow> (license_error, calls)
         | (Inr None, calls) \<Rightarrow>
             (Json 404 [(''valid'', JBool False),
                        (''error'', JStr ''License key not found or subscription not active'')],
              calls)
         | (Inr (Some s), calls) \<Rightarrow>
             if status s \<noteq> ''active'' \<and> status s \<noteq> ''trialing'' then
               (Json 200 [(''valid'', JBool False),
                          (''error'', JStr ''Subscription is not active''),
                          (''status'', JStr (status s))],
                calls)
             else if current_period_end s * 1000 < now then
               (Json 200 [(''valid'', JBool False),
                          (''error'', JStr ''Subscription has expired''),
                          (''expiryDate'', JDate (current_period_end s * 1000))],
                calls)
             else
               (case license_valid_body
                       (verify_license_scope e now (str_of (licenseKey r)) s) s of
                  Inl ex \<Rightarrow> (license_error, calls)
                | Inr body \<Rightarrow> (Json 200 body, calls))))"

section \<open>The stripe-webhook handler\<close>

text \<open>
  The handler verifies the signature first and returns 400 when
  \<^verbatim>\<open>constructEvent\<close> throws; only then comes the \<^verbatim>\<open>switch (event.type)\<close>, whose one
  provider call is the retrieve for a completed checkout session in subscription mode
  (its result and its failure are only logged). Every other event type is logged.
\<close>

definition stripe_webhook_handler ::
  "'w stripe \<Rightarrow> env \<Rightarrow> webhook_request \<Rightarrow> 'w \<Rightarrow> response \<times> call list" where
  "stripe_webhook_handler P e r w =
     (if wh_method r \<noteq> ''POST'' then (Json 405 (error_body ''Method not allowed''), [])
      else if \<not> truthy (STRIPE_SECRET_KEY e) \<or> \<not> truthy (STRIPE_WEBHOOK_SECRET e) then
        (Json 500 (error_body ''Server configuration error''), [])
      else
        (case webhooks_constructEvent P (raw_body r) (stripe_signature r)
                (str_of (STRIPE_WEBHOOK_SECRET e)) of
           Inl err \<Rightarrow> (Json 400 (error_body (''Webhook Error: '' @ message err)), [])
         | Inr ev \<Rightarrow>
             if event_type ev = ''checkout.session.completed''
                \<and> session_mode ev = Some ''subscription'' \<and> truthy (session_subscription ev)
             then (Json 200 [(''received'', JBool True)],
                   [SubscriptionsRetrieve (str_of (session_subscription ev))])
             else (Json 200 [(''received'', JBool True)], [])))"

section \<open>Notions used in the statements\<close>

text \<open>
  The request passes the checks that precede the lookup in the cancel and the refund
  handler: the method, an identifier, the provider key.
\<close>

definition reaches_lookup :: "env \<Rightarrow> request \<Rightarrow> bool" where
  "reaches_lookup e r =
     (req_method r = ''POST'' \<and> (truthy (subscriptionId r) \<or> truthy (email r))
      \<and> truthy (stripeSecretKey e))"

text \<open>The subscriptions the provider lists for a customer in the license check.\<close>

definition listed :: "'w stripe \<Rightarrow> 'w \<Rightarrow> customer_obj \<Rightarrow> subscription list" where
  "listed P w c = (case subscriptions_list P w (cus_id c) 10 of Inl e \<Rightarrow> [] | Inr ss \<Rightarrow> ss)"

text \<open>
  Something in the \<^verbatim>\<open>try\<close> of the auto-refund block throws: the invoice lookup, the
  refund creation, or the immediate cancellation after the refund.
\<close>

definition refund_issuance_fails :: "'w stripe \<Rightarrow> 'w \<Rightarrow> subscription \<Rightarrow> bool" where
  "refund_issuance_fails P w s =
     (case invoices_list P w (sub_id s) 1 (Some ''paid'') of
        Inl e \<Rightarrow> True
      | Inr [] \<Rightarrow> False
      | Inr (first_invoice # invs) \<Rightarrow>
          truthy (charge first_invoice) \<and>
          (case refunds_create P w (str_of (charge first_invoice)) ''requested_by_customer'' of
             (Inl e, w1) \<Rightarrow> True
           | (Inr rf, w1) \<Rightarrow>
               (case subscriptions_cancel P w1 (sub_id s) of
                  (Inl e, w2) \<Rightarrow> True
                | (Inr cancelled, w2) \<Rightarrow> False)))"

section \<open>Reading the call list\<close>

definition is_refund_call :: "call \<Rightarrow> bool" where
  "is_refund_call c = (case c of RefundsCreate ch rs \<Rightarrow> True | _ \<Rightarrow> False)"

definition is_cancellation_write :: "call \<Rightarrow> bool" where
  "is_cancellation_write c =
     (case c of SubscriptionsCancel i \<Rightarrow> True | SubscriptionsUpdate i b \<Rightarrow> True | _ \<Rightarrow> False)"

definition is_write :: "call \<Rightarrow> bool" where
  "is_write c = (is_refund_call c \<or> is_cancellation_write c)"

text \<open>No refund is created after a cancellation write.\<close>

fun refund_first :: "call list \<Rightarrow> bool" where
  "refund_first [] = True"
| "refund_first (c # cs) =
     (if is_cancellation_write c then list_all (\<lambda>d. \<not> is_refund_call d) cs \<and> refund_first cs
      else refund_first cs)"

section \<open>An in-memory provider\<close>

text \<open>
  A small provider to run the handlers on: lists of subscriptions, customers and invoices
  (each invoice with its subscription, its status and the amount paid), the charges
  refunded so far, and the operations that are currently failing. Lists are cut at the
  limit asked for; the e-mail filter compares as given; an update sets the flag and a
  cancel sets the status \<open>canceled\<close>, and both return the subscription as changed. A
  webhook signature is valid when it is the secret followed by the payload; the event
  type is the payload.
\<close>

record store =
  subs :: "subscription list"
  custs :: "customer_obj list"
  invs :: "(string \<times> string \<times> int \<times> invoice) list"
  refunded :: "string list"
  outage :: "string list"

definition unavailable :: exn where
  "unavailable = Exn ''An error occurred with our connection to Stripe''"

definition store_retrieve :: "store \<Rightarrow> string \<Rightarrow> exn + subscription" where
  "store_retrieve w i =
     (if ''subscriptions.retrieve'' \<in> set (outage w) then Inl unavailable
      else case List.find (\<lambda>s. sub_id s = i) (subs w) of
             None \<Rightarrow> Inl (Exn (''No such subscription: '' @ i))
           | Some s \<Rightarrow> Inr s)"

definition store_customers :: "store \<Rightarrow> string \<Rightarrow> nat \<Rightarrow> exn + customer_obj list" where
  "store_customers w em n_max =
     (if ''customers.list'' \<in> set (outage w) then Inl unavailable
      else Inr (take n_max (filter (\<lambda>c. cus_email c = em) (custs w))))"

definition store_subscriptions :: "store \<Rightarrow> string \<Rightarrow> nat \<Rightarrow> exn + subscription list" where
  "store_subscriptions w cid n_max =
     (if ''subscriptions.list'' \<in> set (outage w) then Inl unavailable
      else Inr (take n_max (filter (\<lambda>s. customer s = cid) (subs w))))"

definition store_invoices :: "store \<Rightarrow> string \<Rightarrow> nat \<Rightarrow> string option \<Rightarrow> exn + invoice list" where
  "store_invoices w sid n_max st =
     (if ''invoices.list'' \<in> set (outage w) then Inl unavailable
      else Inr (take n_max (map (\<lambda>(i, s, a, iv). iv)
             (filter (\<lambda>(i, s, a, iv). i = sid \<and> (st = None \<or> st = Some s)) (invs w)))))"

definition store_refund :: "store \<Rightarrow> string \<Rightarrow> string \<Rightarrow> (exn + refund) \<times> store" where
  "store_refund w ch rs =
     (if ''refunds.create'' \<in> set (outage w) then (Inl unavailable, w)
      else case List.find (\<lambda>(i, s, a, iv). charge iv = Some ch) (invs w) of
             None \<Rightarrow> (Inl (Exn (''No such charge: '' @ ch)), w)
           | Some (i, s, a, iv) \<Rightarrow>
               (Inr \<lparr>refund_id = ''re_'' @ ch, amount = a, currency = ''gbp''\<rparr>,
                w\<lparr>refunded := ch # refunded w\<rparr>))"

definition store_cancel :: "store \<Rightarrow> string \<Rightarrow> (exn + subscription) \<times> store" where
  "store_cancel w i =
     (if ''subscriptions.cancel'' \<in> set (outage w) then (Inl unavailable, w)
      else case List.find (\<lambda>s. sub_id s = i) (subs w) of
             None \<Rightarrow> (Inl (Exn (''No such subscription: '' @ i)), w)
           | Some s \<Rightarrow>
               (Inr (s\<lparr>status := ''canceled''\<rparr>),
                w\<lparr>subs := map (\<lambda>x. if sub_id x = i then x\<lparr>status := ''canceled''\<rparr> else x) (subs w)\<rparr>))"

definition store_update :: "store \<Rightarrow> string \<Rightarrow> bool \<Rightarrow> (exn + subscription) \<times> store" where
  "store_update w i flag =
     (if ''subscriptions.update'' \<in> set (outage w) then (Inl unavailable, w)
      else case List.find (\<lambda>s. sub_id s = i) (subs w) of
             None \<Rightarrow> (Inl (Exn (''No such subscription: '' @ i)), w)
           | Some s \<Rightarrow>
               (Inr (s\<lparr>cancel_at_period_end := flag\<rparr>),
                w\<lparr>subs := map (\<lambda>x. if sub_id x = i then x\<lparr>cancel_at_period_end := flag\<rparr> else x)
                              (subs w)\<rparr>))"

definition store_constructEvent :: "string \<Rightarrow> string option \<Rightarrow> string \<Rightarrow> exn + event" where
  "store_constructEvent payload sig secret =
     (if sig = Some (secret @ payload) then
        Inr \<lparr>event_type = payload, session_mode = None, session_subscription = None\<rparr>
      else Inl (Exn ''No signatures found matching the expected signature for payload''))"

definition store_stripe :: "store stripe" where
  "store_stripe =
     \<lparr>subscriptions_retrieve = store_retrieve,
      customers_list = store_customers,
      subscriptions_list = store_subscriptions,
      invoices_list = store_invoices,
      refunds_create = store_refund,
      subscriptions_cancel = store_cancel,
      subscriptions_update = store_update,
      webhooks_constructEvent = store_constructEvent\<rparr>"

text \<open>Example data: a live environment, a customer and subscriptions of several kinds.\<close>

definition live_env :: env where
  "live_env = \<lparr>FORCE_TEST_MODE = None, TEST_STRIPE_SECRET_KEY = None,
                STRIPE_SECRET_KEY = Some ''sk_live_1'', STRIPE_WEBHOOK_SECRET = Some ''whsec_1''\<rparr>"

text \<open>The clock of the examples: 20000 days after the epoch, in milliseconds.\<close>

definition now0 :: int where
  "now0 = 20000 * 86400000"

definition sub_at :: "string \<Rightarrow> string \<Rightarrow> string \<Rightarrow> int \<Rightarrow> bool \<Rightarrow> subscription" where
  "sub_at i cid st age_days pending =
     \<lparr>sub_id = i, customer = cid, status = st,
      created = (20000 - age_days) * 86400,
      current_period_end = (20030 - age_days) * 86400,
      cancel_at_period_end = pending, trial_end = None\<rparr>"

definition post :: request where
  "post = \<lparr>req_method = ''POST'', subscriptionId = None, email = None, reason = None,
           action = None, autoRefund = False, licenseKey = None\<rparr>"

definition store0 :: "subscription list \<Rightarrow> store" where
  "store0 ss =
     \<lparr>subs = ss,
      custs = [\<lparr>cus_id = ''cus_1'', cus_email = ''ann@example.com''\<rparr>],
      invs = [(''sub_paid'', ''paid'', 499, \<lparr>charge = Some ''ch_1''\<rparr>)],
      refunded = [], outage = []\<rparr>"

section \<open>Unfolding the handlers\<close>

lemmas run_defs =
  cancel_subscription_handler_def process_refund_handler_def verify_license_handler_def
  stripe_webhook_handler_def cancel_located_def refund_located_def auto_refund_def
  period_end_update_def update_response_def locate_subscription_def locate_license_def
  license_valid_body_def or_identifiers_def read_identifier_def verify_license_scope_def
  license_error_def internal_server_error_def error_body_def stripeSecretKey_def truthy_def
  str_of_def daysSincePurchase_def valid_time_def within_refund_window_def
  refund_window_expired_def is_active_def reaches_lookup_def listed_def
  refund_issuance_fails_def
  store_stripe_def store_retrieve_def store_customers_def store_subscriptions_def
  store_invoices_def store_refund_def store_cancel_def store_update_def
  store_constructEvent_def unavailable_def live_env_def now0_def sub_at_def post_def store0_def

lemma cancel_handler_located:
  assumes "reaches_lookup e r"
    and "locate_subscription ''No subscription found'' P w r = (Inr (Inr s), c1)"
  shows "cancel_subscription_handler P e now r w
         = (case cancel_located P now r s w of (resp, w1, c2) \<Rightarrow> (resp, w1, c1 @ c2))"
  using assms by (auto simp add: cancel_subscription_handler_def reaches_lookup_def)

lemma refund_handler_located:
  assumes "reaches_lookup e r"
    and "locate_subscription ''No subscription found for this customer'' P w r = (Inr (Inr s), c1)"
  shows "process_refund_handler P e now r w
         = (case refund_located P now s w of
              (Inl ex, w1, c2) \<Rightarrow> (internal_server_error ex, w1, c1 @ c2)
            | (Inr resp, w1, c2) \<Rightarrow> (resp, w1, c1 @ c2))"
  using assms by (auto simp add: process_refund_handler_def reaches_lookup_def)

lemma locate_reads_only: "list_all (\<lambda>c. \<not> is_write c) (snd (locate_subscription m P w r))"
  by (simp add: locate_subscription_def is_write_def is_refund_call_def is_cancellation_write_def
      split: sum.splits list.splits)

section \<open>Order of the provider writes\<close>

lemma refund_first_after_reads:
  "list_all (\<lambda>c. \<not> is_write c) c1 \<Longrightarrow> refund_first (c1 @ cs) = refund_first cs"
  by (induction c1) (auto simp add: is_write_def)

lemma reads_refund_first: "list_all (\<lambda>c. \<not> is_write c) cs \<Longrightarrow> refund_first cs"
  using refund_first_after_reads [of cs "[]"] by simp

lemma refund_first_nth:
  "refund_first cs \<Longrightarrow> i < length cs \<Longrightarrow> j < length cs \<Longrightarrow> is_refund_call (cs ! i)
     \<Longrightarrow> is_cancellation_write (cs ! j) \<Longrightarrow> i < j"
proof (induction cs arbitrary: i j)
  case Nil
  then show ?case by simp
next
  case (Cons c cs)
  show ?case
  proof (cases j)
    case 0
    with Cons.prems have w: "is_cancellation_write c" by simp
    with Cons.prems have none: "list_all (\<lambda>d. \<not> is_refund_call d) cs" by simp
    have "i = 0 \<Longrightarrow> False"
      using Cons.prems w
      by (auto simp add: is_refund_call_def is_cancellation_write_def split: call.splits)
    moreover have "i \<noteq> 0 \<Longrightarrow> False"
    proof -
      assume "i \<noteq> 0"
      then obtain k where k: "i = Suc k" by (cases i) auto
      with Cons.prems have "k < length cs" "is_refund_call (cs ! k)" by auto
      with none show False by (auto simp add: list_all_length)
    qed
    ultimately show ?thesis by blast
  next
    case (Suc j')
    show ?thesis
    proof (cases i)
      case 0
      then show ?thesis using Suc by simp
    next
      case (Suc i')
      have rf: "refund_first cs" using Cons.prems(1) by (auto split: if_splits)
      have "i' < j'"
        using Cons.IH [OF rf, of i' j'] Cons.prems Suc \<open>j = Suc j'\<close> by auto
      then show ?thesis using Suc \<open>j = Suc j'\<close> by simp
    qed
  qed
qed

lemma cancel_located_refund_first: "refund_first (snd (snd (cancel_located P now r s w)))"
  by (simp add: cancel_located_def auto_refund_def period_end_update_def Let_def
      is_refund_call_def is_cancellation_write_def
      split: sum.splits list.splits prod.splits option.splits)

lemma refund_located_refund_first: "refund_first (snd (snd (refund_located P now s w)))"
  by (simp add: refund_located_def is_refund_call_def is_cancellation_write_def
      split: sum.splits list.splits prod.splits option.splits)

lemma cancel_handler_refund_first:
  "refund_first (snd (snd (cancel_subscription_handler P e now r w)))"
proof (cases "locate_subscription ''No subscription found'' P w r")
  case (Pair res c1)
  have reads: "list_all (\<lambda>c. \<not> is_write c) c1"
    using locate_reads_only [of "''No subscription found''" P w r] Pair by simp
  show ?thesis
  proof (cases res)
    case (Inl ex)
    then show ?thesis
      using Pair reads by (simp add: cancel_subscription_handler_def reads_refund_first)
  next
    case (Inr found)
    show ?thesis
    proof (cases found)
      case (Inl resp)
      then show ?thesis
        using Pair Inr reads by (simp add: cancel_subscription_handler_def reads_refund_first)
    next
      case (Inr s)
      then show ?thesis
        using Pair \<open>res = Inr found\<close> reads cancel_located_refund_first [of P now r s w]
        by (auto simp add: cancel_subscription_handler_def refund_first_after_reads
            split: prod.splits)
    qed
  qed
qed

lemma refund_handler_refund_first:
  "refund_first (snd (snd (process_refund_handler P e now r w)))"
proof (cases "locate_subscription ''No subscription found for this customer'' P w r")
  case (Pair res c1)
  have reads: "list_all (\<lambda>c. \<not> is_write c) c1"
    using locate_reads_only [of "''No subscription found for this customer''" P w r] Pair by simp
  show ?thesis
  proof (cases res)
    case (Inl ex)
    then show ?thesis
      using Pair reads by (simp add: process_refund_handler_def reads_refund_first)
  next
    case (Inr found)
    show ?thesis
    proof (cases found)
      case (Inl resp)
      then show ?thesis
        using Pair Inr reads by (simp add: process_refund_handler_def reads_refund_first)
    next
      case (Inr s)
      then show ?thesis
        using Pair \<open>res = Inr found\<close> reads refund_located_refund_first [of P now s w]
        by (auto simp add: process_refund_handler_def refund_first_after_reads
            split: prod.splits sum.splits)
    qed
  qed
qed

text \<open>
  C7. In every run of the cancel handler and of the refund handler, a refund creation
  comes strictly before any cancellation write (an immediate cancel or a period-end
  update) in the list of provider calls: no run cancels first and refunds afterwards.
\<close>

theorem refund_before_cancellation:
  assumes "cs = snd (snd (cancel_subscription_handler P e now r w))
           \<or> cs = snd (snd (process_refund_handler P e now r w))"
    and "i < length cs" and "j < length cs"
    and "is_refund_call (cs ! i)" and "is_cancellation_write (cs ! j)"
  shows "i < j"
proof -
  have "refund_first cs"
    using assms(1) cancel_handler_refund_first refund_handler_refund_first by metis
  then show ?thesis using assms(2-5) by (rule refund_first_nth)
qed

text \<open>
  An active subscription bought three days ago, cancelled with \<open>autoRefund\<close>: the refund
  is the third call and the cancellation the fourth.
\<close>

theorem refund_before_cancellation_witness:
  "snd (snd (cancel_subscription_handler store_stripe live_env now0
       (post\<lparr>subscriptionId := Some ''sub_paid'', autoRefund := True\<rparr>)
       (store0 [sub_at ''sub_paid'' ''cus_1'' ''active'' 3 False])))
   = [SubscriptionsRetrieve ''sub_paid'', InvoicesList ''sub_paid'' 1 (Some ''paid''),
      RefundsCreate ''ch_1'' ''requested_by_customer'', SubscriptionsCancel ''sub_paid'',
      SendEmail (CancelledAndRefunded (499 / 100))]
   \<and> (2 :: nat) < 3"
proof -
  let ?cs = "[SubscriptionsRetrieve ''sub_paid'', InvoicesList ''sub_paid'' 1 (Some ''paid''),
      RefundsCreate ''ch_1'' ''requested_by_customer'', SubscriptionsCancel ''sub_paid'',
      SendEmail (CancelledAndRefunded (499 / 100))]"
  have run: "snd (snd (cancel_subscription_handler store_stripe live_env now0
       (post\<lparr>subscriptionId := Some ''sub_paid'', autoRefund := True\<rparr>)
       (store0 [sub_at ''sub_paid'' ''cus_1'' ''active'' 3 False]))) = ?cs"
    by (simp add: run_defs)
  have "(2 :: nat) < 3"
    using refund_before_cancellation [where cs = ?cs and i = 2 and j = 3
        and P = store_stripe and e = live_env and now = now0
        and r = "post\<lparr>subscriptionId := Some ''sub_paid'', autoRefund := True\<rparr>"
        and w = "store0 [sub_at ''sub_paid'' ''cus_1'' ''active'' 3 False]"] run
    by (simp add: is_refund_call_def is_cancellation_write_def)
  with run show ?thesis by simp
qed

section \<open>The refund window\<close>

lemma days_le_7: "(daysSincePurchase now s \<le> 7) = (now - created s * 1000 \<le> 604800000)"
proof -
  have "(of_int (now - created s * 1000) / (86400000 :: rat) \<le> 7)
        = (of_int (now - created s * 1000) \<le> (of_int 604800000 :: rat))"
    by (simp add: pos_divide_le_eq)
  also have "\<dots> = (now - created s * 1000 \<le> 604800000)"
    by (simp only: of_int_le_iff)
  finally show ?thesis by (simp add: daysSincePurchase_def)
qed

lemma invalid_date_neither:
  "\<not> valid_time (created s * 1000)
     \<Longrightarrow> \<not> within_refund_window now s \<and> \<not> refund_window_expired now s"
  by (simp add: within_refund_window_def refund_window_expired_def)

text \<open>
  C1. For every subscription and every instant \<open>now\<close> in the range of a \<^verbatim>\<open>Date\<close>, the
  days since purchase are the elapsed milliseconds divided by the \<open>86400000\<close>
  milliseconds of a day, a fraction, and the subscription is refund-eligible exactly when
  they are at most 7, the boundary included: that is, exactly when at most
  \<open>7 * 86400000\<close> milliseconds have passed. The cancel handler's auto-refund block starts
  its refund attempt (the lookup of the paid invoice) exactly in that case, and the
  refund handler answers "Refund window expired" exactly in the other.
\<close>

theorem refund_window_inclusive:
  assumes "valid_time now" and "valid_time (created s * 1000)"
  shows "daysSincePurchase now s = of_int (now - created s * 1000) / 86400000
         \<and> (daysSincePurchase now s \<le> 7) = (now - created s * 1000 \<le> 7 * 86400000)
         \<and> (autoRefund r \<and> action r \<noteq> Some ''reactivate'' \<longrightarrow>
              (InvoicesList (sub_id s) 1 (Some ''paid'')
                 \<in> set (snd (snd (auto_refund P now r s w))))
              = (daysSincePurchase now s \<le> 7))
         \<and> (\<exists>d. fst (refund_located P now s w)
                = Inr (Json 400 [(''error'', JStr ''Refund window expired''),
                                 (''details'', JStr d)]))
             = (\<not> daysSincePurchase now s \<le> 7)"
proof (intro conjI impI)
  show "daysSincePurchase now s = of_int (now - created s * 1000) / 86400000"
    by (simp add: daysSincePurchase_def)
next
  show "(daysSincePurchase now s \<le> 7) = (now - created s * 1000 \<le> 7 * 86400000)"
    by (simp add: days_le_7)
next
  assume "autoRefund r \<and> action r \<noteq> Some ''reactivate''"
  then show "(InvoicesList (sub_id s) 1 (Some ''paid'') \<in> set (snd (snd (auto_refund P now r s w))))
          = (daysSincePurchase now s \<le> 7)"
    using assms
    by (simp add: auto_refund_def within_refund_window_def
        split: sum.splits list.splits prod.splits)
next
  show "(\<exists>d. fst (refund_located P now s w)
          = Inr (Json 400 [(''error'', JStr ''Refund window expired''), (''details'', JStr d)]))
       = (\<not> daysSincePurchase now s \<le> 7)"
    using assms
    by (auto simp add: refund_located_def refund_window_expired_def error_body_def
        split: sum.splits list.splits prod.splits)
qed

text \<open>
  A subscription created exactly 7 days before \<open>now0\<close>: the attempt starts. One
  millisecond later it does not; half a day later the days since purchase are \<open>15/2\<close>.
\<close>

theorem refund_window_inclusive_witness:
  "daysSincePurchase now0 (sub_at ''sub_paid'' ''cus_1'' ''active'' 7 False) = 7
   \<and> daysSincePurchase (now0 + 43200000) (sub_at ''sub_paid'' ''cus_1'' ''active'' 7 False) = 15 / 2
   \<and> InvoicesList ''sub_paid'' 1 (Some ''paid'')
       \<in> set (snd (snd (auto_refund store_stripe now0 (post\<lparr>autoRefund := True\<rparr>)
                 (sub_at ''sub_paid'' ''cus_1'' ''active'' 7 False)
                 (store0 [sub_at ''sub_paid'' ''cus_1'' ''active'' 7 False]))))
   \<and> InvoicesList ''sub_paid'' 1 (Some ''paid'')
       \<notin> set (snd (snd (auto_refund store_stripe (now0 + 1) (post\<lparr>autoRefund := True\<rparr>)
                 (sub_at ''sub_paid'' ''cus_1'' ''active'' 7 False)
                 (store0 [sub_at ''sub_paid'' ''cus_1'' ''active'' 7 False]))))"
  using refund_window_inclusive [where now = now0 and s = "sub_at ''sub_paid'' ''cus_1'' ''active'' 7 False"
      and r = "post\<lparr>autoRefund := True\<rparr>" and P = store_stripe
      and w = "store0 [sub_at ''sub_paid'' ''cus_1'' ''active'' 7 False]"]
    refund_window_inclusive [where now = "now0 + 1" and s = "sub_at ''sub_paid'' ''cus_1'' ''active'' 7 False"
      and r = "post\<lparr>autoRefund := True\<rparr>" and P = store_stripe
      and w = "store0 [sub_at ''sub_paid'' ''cus_1'' ''active'' 7 False]"]
    refund_window_inclusive [where now = "now0 + 43200000"
      and s = "sub_at ''sub_paid'' ''cus_1'' ''active'' 7 False"
      and r = "post\<lparr>autoRefund := True\<rparr>" and P = store_stripe
      and w = "store0 [sub_at ''sub_paid'' ''cus_1'' ''active'' 7 False]"]
  by (simp add: post_def sub_at_def now0_def daysSincePurchase_def valid_time_def)

section \<open>The refund endpoint outside the window\<close>

text \<open>
  C10. In the refund handler the window check comes before the trial check: for a
  located trialing subscription more than 7 days old (its dates in the range of a
  \<^verbatim>\<open>Date\<close>) the response is the 400 "Refund window expired", the provider's state is
  unchanged and the only calls made are the reads of the lookup, so the trial is not
  cancelled. While the elapsed time is at most \<open>2^53\<close> milliseconds the text of
  \<^verbatim>\<open>details\<close> is the one given.
\<close>

theorem refund_window_checked_before_trial:
  assumes "reaches_lookup e r"
    and "locate_subscription ''No subscription found for this customer'' P w r = (Inr (Inr s), reads)"
    and "status s = ''trialing''"
    and "valid_time now" and "valid_time (created s * 1000)"
    and "7 < daysSincePurchase now s"
  shows "(\<exists>d. process_refund_handler P e now r w
            = (Json 400 [(''error'', JStr ''Refund window expired''), (''details'', JStr d)],
               w, reads))
         \<and> (\<bar>now - created s * 1000\<bar> \<le> 9007199254740992 \<longrightarrow>
              process_refund_handler P e now r w
              = (Json 400
                   [(''error'', JStr ''Refund window expired''),
                    (''details'', JStr (''Refunds are only available within 7 days of purchase. Your subscription was created ''
                        @ show_int (floor (daysSincePurchase now s)) @ '' days ago.''))],
                 w, reads))
         \<and> list_all (\<lambda>c. \<not> is_write c) reads"
  using assms(4-6) locate_reads_only [of "''No subscription found for this customer''" P w r]
  by (simp add: refund_handler_located [OF assms(1,2)] refund_located_def
      refund_window_expired_def assms(2))

text \<open>A trial started ten days ago: the request is refused and nothing is written.\<close>

theorem refund_window_checked_before_trial_witness:
  "process_refund_handler store_stripe live_env now0
     (post\<lparr>subscriptionId := Some ''sub_trial''\<rparr>)
     (store0 [sub_at ''sub_trial'' ''cus_1'' ''trialing'' 10 False])
   = (Json 400
        [(''error'', JStr ''Refund window expired''),
         (''details'', JStr ''Refunds are only available within 7 days of purchase. Your subscription was created 10 days ago.'')],
      store0 [sub_at ''sub_trial'' ''cus_1'' ''trialing'' 10 False],
      [SubscriptionsRetrieve ''sub_trial''])"
proof -
  have days: "daysSincePurchase now0 (sub_at ''sub_trial'' ''cus_1'' ''trialing'' 10 False) = 10"
    by (simp add: daysSincePurchase_def now0_def sub_at_def)
  have ten: "show_int 10 = ''10''"
    by code_simp
  have range: "valid_time now0
      \<and> valid_time (created (sub_at ''sub_trial'' ''cus_1'' ''trialing'' 10 False) * 1000)
      \<and> \<bar>now0 - created (sub_at ''sub_trial'' ''cus_1'' ''trialing'' 10 False) * 1000\<bar>
          \<le> 9007199254740992"
    by (simp add: valid_time_def now0_def sub_at_def)
  have run: "reaches_lookup live_env (post\<lparr>subscriptionId := Some ''sub_trial''\<rparr>)
      \<and> locate_subscription ''No subscription found for this customer'' store_stripe
           (store0 [sub_at ''sub_trial'' ''cus_1'' ''trialing'' 10 False])
           (post\<lparr>subscriptionId := Some ''sub_trial''\<rparr>)
         = (Inr (Inr (sub_at ''sub_trial'' ''cus_1'' ''trialing'' 10 False)),
            [SubscriptionsRetrieve ''sub_trial''])
      \<and> status (sub_at ''sub_trial'' ''cus_1'' ''trialing'' 10 False) = ''trialing''"
    by (simp add: run_defs)
  show ?thesis
    using refund_window_checked_before_trial [where e = live_env
        and r = "post\<lparr>subscriptionId := Some ''sub_trial''\<rparr>" and P = store_stripe
        and w = "store0 [sub_at ''sub_trial'' ''cus_1'' ''trialing'' 10 False]"
        and s = "sub_at ''sub_trial'' ''cus_1'' ''trialing'' 10 False"
        and reads = "[SubscriptionsRetrieve ''sub_trial'']" and now = now0]
      range run
    by (simp add: days ten)
qed

section \<open>The webhook signature\<close>

text \<open>
  C9. When the signature check of a webhook request fails (\<^verbatim>\<open>constructEvent\<close> throws),
  the handler answers with a rejection: 400 "Webhook Error: ..." for a configured POST
  request (405 and 500 for the two checks that come first). It makes no provider call, so
  no subscription is looked at, the event is never dispatched, and the response is not
  the acknowledgement \<^verbatim>\<open>{received: true}\<close>.
\<close>

theorem webhook_rejects_bad_signature:
  assumes "webhooks_constructEvent P (raw_body r) (stripe_signature r)
             (str_of (STRIPE_WEBHOOK_SECRET e)) = Inl err"
  shows "stripe_webhook_handler P e r w
         = (if wh_method r \<noteq> ''POST'' then Json 405 (error_body ''Method not allowed'')
            else if \<not> truthy (STRIPE_SECRET_KEY e) \<or> \<not> truthy (STRIPE_WEBHOOK_SECRET e)
              then Json 500 (error_body ''Server configuration error'')
            else Json 400 (error_body (''Webhook Error: '' @ message err)),
            [])
         \<and> fst (stripe_webhook_handler P e r w) \<noteq> Json 200 [(''received'', JBool True)]"
  using assms by (simp add: stripe_webhook_handler_def)

text \<open>A completed-checkout payload with a forged signature.\<close>

theorem webhook_rejects_bad_signature_witness:
  "stripe_webhook_handler store_stripe live_env
      \<lparr>wh_method = ''POST'', raw_body = ''checkout.session.completed'',
       stripe_signature = Some ''forged''\<rparr> (store0 [])
   = (Json 400 [(''error'', JStr ''Webhook Error: No signatures found matching the expected signature for payload'')], [])"
  using webhook_rejects_bad_signature [where P = store_stripe and e = live_env
      and r = "\<lparr>wh_method = ''POST'', raw_body = ''checkout.session.completed'',
                 stripe_signature = Some ''forged''\<rparr>"
      and w = "store0 []"
      and err = "Exn ''No signatures found matching the expected signature for payload''"]
  by (simp add: run_defs)

section \<open>The license check of a valid subscription\<close>

lemma customerEmail_unbound:
  "or_identifiers (verify_license_scope e now key s) ''customerEmail'' ''normalizedLicenseKey''
     = Inl (Exn ''customerEmail is not defined'')"
  by (simp add: or_identifiers_def read_identifier_def verify_license_scope_def)

text \<open>
  C2, as the code behaves. A license check that finds an active or trialing subscription
  whose period end is not in the past reaches the "License is valid" response, whose
  \<^verbatim>\<open>email\<close> property reads \<^verbatim>\<open>customerEmail\<close>, an identifier with no binding. The
  ReferenceError is caught by \<^verbatim>\<open>catch (stripeError)\<close> and the handler answers
  500 "Error verifying license key" instead of \<^verbatim>\<open>valid: true\<close>.
\<close>

theorem verify_license_active_subscription_error:
  assumes "req_method r = ''POST''" and "truthy (licenseKey r)" and "truthy (stripeSecretKey e)"
    and "locate_license P w (str_of (licenseKey r)) = (Inr (Some s), calls)"
    and "status s = ''active'' \<or> status s = ''trialing''"
    and "now \<le> current_period_end s * 1000"
  shows "verify_license_handler P e now r w
         = (Json 500 [(''valid'', JBool False), (''error'', JStr ''Error verifying license key'')],
            calls)"
  using assms
  by (auto simp add: verify_license_handler_def license_valid_body_def customerEmail_unbound
      license_error_def)

text \<open>The key of an active subscription whose period ends in 27 days.\<close>

theorem verify_license_active_subscription_error_witness:
  "verify_license_handler store_stripe live_env now0 (post\<lparr>licenseKey := Some ''sub_paid''\<rparr>)
     (store0 [sub_at ''sub_paid'' ''cus_1'' ''active'' 3 False])
   = (Json 500 [(''valid'', JBool False), (''error'', JStr ''Error verifying license key'')],
      [SubscriptionsRetrieve ''sub_paid''])"
  using verify_license_active_subscription_error [where r = "post\<lparr>licenseKey := Some ''sub_paid''\<rparr>"
      and e = live_env and P = store_stripe
      and w = "store0 [sub_at ''sub_paid'' ''cus_1'' ''active'' 3 False]"
      and s = "sub_at ''sub_paid'' ''cus_1'' ''active'' 3 False"
      and calls = "[SubscriptionsRetrieve ''sub_paid'']" and now = now0]
  by (simp add: run_defs)

section \<open>Auto-refund outside the window\<close>

lemma locate_ignores_options:
  "locate_subscription m P w (r\<lparr>autoRefund := b\<rparr>) = locate_subscription m P w r"
  by (simp add: locate_subscription_def split: sum.splits list.splits)

text \<open>
  C6, as stated, fails when the provider's update call fails: a cancel request with
  \<open>autoRefund\<close> on a subscription bought ten days ago, while
  \<^verbatim>\<open>subscriptions.update\<close> is failing, is answered 500.
\<close>

theorem auto_refund_outside_window_counterexample:
  "7 < daysSincePurchase now0 (sub_at ''sub_paid'' ''cus_1'' ''active'' 10 False)
   \<and> cancel_subscription_handler store_stripe live_env now0
       (post\<lparr>subscriptionId := Some ''sub_paid'', autoRefund := True\<rparr>)
       ((store0 [sub_at ''sub_paid'' ''cus_1'' ''active'' 10 False])
          \<lparr>outage := [''subscriptions.update'']\<rparr>)
     = (Json 500 [(''error'', JStr ''Internal server error''),
                  (''details'', JStr ''An error occurred with our connection to Stripe'')],
        (store0 [sub_at ''sub_paid'' ''cus_1'' ''active'' 10 False])
          \<lparr>outage := [''subscriptions.update'']\<rparr>,
        [SubscriptionsRetrieve ''sub_paid'', SubscriptionsUpdate ''sub_paid'' True])"
  by (simp add: run_defs)

text \<open>
  C6, amended. For a cancel request with \<open>autoRefund\<close> on a located subscription more
  than 7 days old, no invoice lookup, refund or immediate cancellation is attempted:
  the handler makes the one period-end update of the standard cancellation and behaves
  exactly as the same request without \<open>autoRefund\<close>. The response is the period-end
  success built from the subscription the provider returns when that update succeeds,
  and the 500 of the outer catch when the update itself fails.
\<close>

theorem auto_refund_outside_window:
  assumes "reaches_lookup e r"
    and "locate_subscription ''No subscription found'' P w r = (Inr (Inr s), reads)"
    and "autoRefund r" and "action r \<noteq> Some ''reactivate''"
    and "7 < daysSincePurchase now s"
  shows "cancel_subscription_handler P e now r w
         = (case subscriptions_update P w (sub_id s) True of
              (Inl ex, w') \<Rightarrow>
                (internal_server_error ex, w', reads @ [SubscriptionsUpdate (sub_id s) True])
            | (Inr u, w') \<Rightarrow>
                (update_response False u, w',
                 reads @ [SubscriptionsUpdate (sub_id s) True, SendEmail CancellationRequest]))
         \<and> cancel_subscription_handler P e now r w
             = cancel_subscription_handler P e now (r\<lparr>autoRefund := False\<rparr>) w"
proof -
  have skip: "auto_refund P now r s w = (None, w, [])"
    using assms(5) by (simp add: auto_refund_def within_refund_window_def)
  have skip': "auto_refund P now (r\<lparr>autoRefund := False\<rparr>) s w = (None, w, [])"
    by (simp add: auto_refund_def)
  have same: "period_end_update P (r\<lparr>autoRefund := False\<rparr>) s w = period_end_update P r s w"
    by (simp add: period_end_update_def)
  have reach': "reaches_lookup e (r\<lparr>autoRefund := False\<rparr>)"
    using assms(1) by (simp add: reaches_lookup_def)
  have loc': "locate_subscription ''No subscription found'' P w (r\<lparr>autoRefund := False\<rparr>)
               = (Inr (Inr s), reads)"
    using assms(2) by (simp add: locate_ignores_options)
  have one: "cancel_subscription_handler P e now r w
         = (case subscriptions_update P w (sub_id s) True of
              (Inl ex, w') \<Rightarrow>
                (internal_server_error ex, w', reads @ [SubscriptionsUpdate (sub_id s) True])
            | (Inr u, w') \<Rightarrow>
                (update_response False u, w',
                 reads @ [SubscriptionsUpdate (sub_id s) True, SendEmail CancellationRequest]))"
    using assms(4)
    by (simp add: cancel_handler_located [OF assms(1,2)] cancel_located_def skip
        period_end_update_def split: prod.splits sum.splits)
  have two: "cancel_subscription_handler P e now (r\<lparr>autoRefund := False\<rparr>) w
             = cancel_subscription_handler P e now r w"
    by (simp add: cancel_handler_located [OF assms(1,2)] cancel_handler_located [OF reach' loc']
        cancel_located_def skip skip' same)
  show ?thesis using one two by simp
qed

text \<open>
  The scenario of the specification: created ten days ago, active, \<open>autoRefund\<close>. No
  refund, the flag is set, the period end is returned.
\<close>

theorem auto_refund_outside_window_witness:
  "cancel_subscription_handler store_stripe live_env now0
     (post\<lparr>subscriptionId := Some ''sub_paid'', autoRefund := True\<rparr>)
     (store0 [sub_at ''sub_paid'' ''cus_1'' ''active'' 10 False])
   = (Json 200
        [(''success'', JBool True),
         (''message'', JStr ''Subscription will be cancelled at the end of the current period''),
         (''subscriptionId'', JStr ''sub_paid''),
         (''cancelAtPeriodEnd'', JBool True),
         (''currentPeriodEnd'', JNum 1729728000)],
      store0 [sub_at ''sub_paid'' ''cus_1'' ''active'' 10 True],
      [SubscriptionsRetrieve ''sub_paid'', SubscriptionsUpdate ''sub_paid'' True,
       SendEmail CancellationRequest])"
  using auto_refund_outside_window [where e = live_env
      and r = "post\<lparr>subscriptionId := Some ''sub_paid'', autoRefund := True\<rparr>"
      and P = store_stripe and w = "store0 [sub_at ''sub_paid'' ''cus_1'' ''active'' 10 False]"
      and s = "sub_at ''sub_paid'' ''cus_1'' ''active'' 10 False"
      and reads = "[SubscriptionsRetrieve ''sub_paid'']" and now = now0]
  by (simp add: run_defs)

section \<open>A failing refund\<close>

lemma refund_failure_caught:
  assumes "autoRefund r" and "action r \<noteq> Some ''reactivate''"
    and "within_refund_window now s" and "refund_issuance_fails P w s"
  shows "fst (auto_refund P now r s w) = None"
  using assms
  by (auto simp add: auto_refund_def refund_issuance_fails_def
      split: sum.splits list.splits prod.splits if_splits)

text \<open>
  C5, as stated, fails when the update that follows the caught failure fails too: an
  eligible cancel request with \<open>autoRefund\<close> while both \<^verbatim>\<open>refunds.create\<close> and
  \<^verbatim>\<open>subscriptions.update\<close> are failing is answered 500. The refund failure itself was
  caught: the handler went on to the update.
\<close>

theorem refund_failure_falls_back_counterexample:
  "within_refund_window now0 (sub_at ''sub_paid'' ''cus_1'' ''active'' 3 False)
   \<and> refund_issuance_fails store_stripe
       ((store0 [sub_at ''sub_paid'' ''cus_1'' ''active'' 3 False])
          \<lparr>outage := [''refunds.create'', ''subscriptions.update'']\<rparr>)
       (sub_at ''sub_paid'' ''cus_1'' ''active'' 3 False)
   \<and> cancel_subscription_handler store_stripe live_env now0
       (post\<lparr>subscriptionId := Some ''sub_paid'', autoRefund := True\<rparr>)
       ((store0 [sub_at ''sub_paid'' ''cus_1'' ''active'' 3 False])
          \<lparr>outage := [''refunds.create'', ''subscriptions.update'']\<rparr>)
     = (Json 500 [(''error'', JStr ''Internal server error''),
                  (''details'', JStr ''An error occurred with our connection to Stripe'')],
        (store0 [sub_at ''sub_paid'' ''cus_1'' ''active'' 3 False])
          \<lparr>outage := [''refunds.create'', ''subscriptions.update'']\<rparr>,
        [SubscriptionsRetrieve ''sub_paid'', InvoicesList ''sub_paid'' 1 (Some ''paid''),
         RefundsCreate ''ch_1'' ''requested_by_customer'',
         SubscriptionsUpdate ''sub_paid'' True])"
  by (simp add: run_defs)

text \<open>
  C5, amended. For an eligible cancel request with \<open>autoRefund\<close> on a located
  subscription (inside the window, its dates in the range of a \<^verbatim>\<open>Date\<close>), the refund
  attempt starts with the lookup of the paid invoice, and whatever throws while the refund is issued (the invoice lookup, the
  refund creation, the cancellation after it) is caught: the auto-refund block returns no
  response of its own and the handler goes on to the standard period-end update, from the
  provider state the failed attempt left. The response is the period-end cancellation
  success when that update succeeds, and the 500 of the outer catch only when the update
  itself fails.
\<close>

theorem refund_failure_falls_back:
  assumes "reaches_lookup e r"
    and "locate_subscription ''No subscription found'' P w r = (Inr (Inr s), reads)"
    and "autoRefund r" and "action r \<noteq> Some ''reactivate''"
    and "within_refund_window now s" and "refund_issuance_fails P w s"
  shows "fst (auto_refund P now r s w) = None
         \<and> hd (snd (snd (auto_refund P now r s w))) = InvoicesList (sub_id s) 1 (Some ''paid'')
         \<and> cancel_subscription_handler P e now r w
           = (case auto_refund P now r s w of
                (early, w1, attempt) \<Rightarrow>
                  (case subscriptions_update P w1 (sub_id s) True of
                     (Inl ex, w2) \<Rightarrow>
                       (internal_server_error ex, w2,
                        reads @ attempt @ [SubscriptionsUpdate (sub_id s) True])
                   | (Inr u, w2) \<Rightarrow>
                       (update_response False u, w2,
                        reads @ attempt
                          @ [SubscriptionsUpdate (sub_id s) True, SendEmail CancellationRequest])))"
proof -
  have caught: "fst (auto_refund P now r s w) = None"
    using assms(3-6) by (rule refund_failure_caught)
  have started: "hd (snd (snd (auto_refund P now r s w))) = InvoicesList (sub_id s) 1 (Some ''paid'')"
    using assms(3-5)
    by (simp add: auto_refund_def split: sum.splits list.splits prod.splits)
  obtain early w1 attempt where ar: "auto_refund P now r s w = (early, w1, attempt)"
    by (cases "auto_refund P now r s w") auto
  with caught have ar': "auto_refund P now r s w = (None, w1, attempt)" by simp
  have rest: "cancel_subscription_handler P e now r w
           = (case auto_refund P now r s w of
                (early, w1, attempt) \<Rightarrow>
                  (case subscriptions_update P w1 (sub_id s) True of
                     (Inl ex, w2) \<Rightarrow>
                       (internal_server_error ex, w2,
                        reads @ attempt @ [SubscriptionsUpdate (sub_id s) True])
                   | (Inr u, w2) \<Rightarrow>
                       (update_response False u, w2,
                        reads @ attempt
                          @ [SubscriptionsUpdate (sub_id s) True, SendEmail CancellationRequest])))"
    using assms(4)
    by (simp add: cancel_handler_located [OF assms(1,2)] cancel_located_def ar'
        period_end_update_def split: prod.splits sum.splits)
  show ?thesis using caught started rest by simp
qed

text \<open>
  The refund creation fails for a subscription bought three days ago: the request ends
  as a period-end cancellation.
\<close>

theorem refund_failure_falls_back_witness:
  "cancel_subscription_handler store_stripe live_env now0
     (post\<lparr>subscriptionId := Some ''sub_paid'', autoRefund := True\<rparr>)
     ((store0 [sub_at ''sub_paid'' ''cus_1'' ''active'' 3 False])\<lparr>outage := [''refunds.create'']\<rparr>)
   = (Json 200
        [(''success'', JBool True),
         (''message'', JStr ''Subscription will be cancelled at the end of the current period''),
         (''subscriptionId'', JStr ''sub_paid''),
         (''cancelAtPeriodEnd'', JBool True),
         (''currentPeriodEnd'', JNum 1730332800)],
      (store0 [sub_at ''sub_paid'' ''cus_1'' ''active'' 3 True])\<lparr>outage := [''refunds.create'']\<rparr>,
      [SubscriptionsRetrieve ''sub_paid'', InvoicesList ''sub_paid'' 1 (Some ''paid''),
       RefundsCreate ''ch_1'' ''requested_by_customer'',
       SubscriptionsUpdate ''sub_paid'' True, SendEmail CancellationRequest])"
  using refund_failure_falls_back [where e = live_env
      and r = "post\<lparr>subscriptionId := Some ''sub_paid'', autoRefund := True\<rparr>"
      and P = store_stripe
      and w = "(store0 [sub_at ''sub_paid'' ''cus_1'' ''active'' 3 False])\<lparr>outage := [''refunds.create'']\<rparr>"
      and s = "sub_at ''sub_paid'' ''cus_1'' ''active'' 3 False"
      and reads = "[SubscriptionsRetrieve ''sub_paid'']" and now = now0]
  by (simp add: run_defs)

section \<open>Reactivation\<close>

lemma reactivate_update:
  assumes "reaches_lookup e r"
    and "locate_subscription ''No subscription found'' P w r = (Inr (Inr s), reads)"
    and "action r = Some ''reactivate''"
  shows "cancel_subscription_handler P e now r w
         = (case subscriptions_update P w (sub_id s) False of
              (Inl ex, w') \<Rightarrow>
                (internal_server_error ex, w', reads @ [SubscriptionsUpdate (sub_id s) False])
            | (Inr u, w') \<Rightarrow>
                (update_response True u, w',
                 reads @ [SubscriptionsUpdate (sub_id s) False, SendEmail Reactivated]))"
proof -
  have skip: "auto_refund P now r s w = (None, w, [])"
    using assms(3) by (simp add: auto_refund_def)
  show ?thesis
    using assms(3)
    by (simp add: cancel_handler_located [OF assms(1,2)] cancel_located_def skip
        period_end_update_def split: prod.splits sum.splits)
qed

lemma find_set_flag:
  "List.find (\<lambda>y. sub_id y = i)
     (map (\<lambda>y. if sub_id y = i then y\<lparr>cancel_at_period_end := b\<rparr> else y) ss)
   = map_option (\<lambda>y. y\<lparr>cancel_at_period_end := b\<rparr>) (List.find (\<lambda>y. sub_id y = i) ss)"
  by (induction ss) auto

lemma map_set_flag_twice:
  "map (\<lambda>y. if sub_id y = i then y\<lparr>cancel_at_period_end := b\<rparr> else y)
     (map (\<lambda>y. if sub_id y = i then y\<lparr>cancel_at_period_end := b\<rparr> else y) ss)
   = map (\<lambda>y. if sub_id y = i then y\<lparr>cancel_at_period_end := b\<rparr> else y) ss"
  by (induction ss) auto

lemma store_reactivate_once:
  assumes "List.find (\<lambda>y. sub_id y = i) (subs st) = Some x" and "outage st = []" and "i \<noteq> []"
  shows "cancel_subscription_handler store_stripe live_env now
           (post\<lparr>subscriptionId := Some i, action := Some ''reactivate''\<rparr>) st
         = (update_response True (x\<lparr>cancel_at_period_end := False\<rparr>),
            st\<lparr>subs := map (\<lambda>y. if sub_id y = i then y\<lparr>cancel_at_period_end := False\<rparr> else y)
                          (subs st)\<rparr>,
            [SubscriptionsRetrieve i, SubscriptionsUpdate i False, SendEmail Reactivated])"
proof -
  let ?rq = "post\<lparr>subscriptionId := Some i, action := Some ''reactivate''\<rparr>"
  have reach: "reaches_lookup live_env ?rq"
    using assms(3)
    by (simp add: reaches_lookup_def post_def truthy_def stripeSecretKey_def live_env_def)
  have loc: "locate_subscription ''No subscription found'' store_stripe st ?rq
             = (Inr (Inr x), [SubscriptionsRetrieve i])"
    using assms
    by (simp add: locate_subscription_def post_def truthy_def str_of_def store_stripe_def
        store_retrieve_def)
  have act: "action ?rq = Some ''reactivate''" by simp
  have sid: "sub_id x = i"
    using assms(1) by (auto simp add: find_Some_iff)
  show ?thesis
    using assms(1,2) sid
    by (subst reactivate_update [OF reach loc act]) (simp add: store_stripe_def store_update_def)
qed

lemma store_reactivate_twice:
  assumes "List.find (\<lambda>y. sub_id y = i) (subs st) = Some x" and "outage st = []" and "i \<noteq> []"
  shows "cancel_subscription_handler store_stripe live_env now
           (post\<lparr>subscriptionId := Some i, action := Some ''reactivate''\<rparr>)
           (st\<lparr>subs := map (\<lambda>y. if sub_id y = i then y\<lparr>cancel_at_period_end := False\<rparr> else y)
                          (subs st)\<rparr>)
         = (update_response True (x\<lparr>cancel_at_period_end := False\<rparr>),
            st\<lparr>subs := map (\<lambda>y. if sub_id y = i then y\<lparr>cancel_at_period_end := False\<rparr> else y)
                          (subs st)\<rparr>,
            [SubscriptionsRetrieve i, SubscriptionsUpdate i False, SendEmail Reactivated])"
proof -
  let ?st = "st\<lparr>subs := map (\<lambda>y. if sub_id y = i then y\<lparr>cancel_at_period_end := False\<rparr> else y)
                          (subs st)\<rparr>"
  have f: "List.find (\<lambda>y. sub_id y = i) (subs ?st) = Some (x\<lparr>cancel_at_period_end := False\<rparr>)"
    using assms(1) by (simp add: find_set_flag)
  have o: "outage ?st = []" using assms(2) by simp
  show ?thesis
    using store_reactivate_once [OF f o assms(3), of now]
    by (simp add: map_set_flag_twice)
qed

text \<open>
  C8, as stated, fails when the provider's update call fails: reactivating a
  subscription with a pending cancellation while \<^verbatim>\<open>subscriptions.update\<close> is failing is
  answered 500 and the flag stays set.
\<close>

theorem reactivation_idempotent_counterexample:
  "cancel_subscription_handler store_stripe live_env now0
     (post\<lparr>subscriptionId := Some ''sub_paid'', action := Some ''reactivate''\<rparr>)
     ((store0 [sub_at ''sub_paid'' ''cus_1'' ''active'' 3 True])
        \<lparr>outage := [''subscriptions.update'']\<rparr>)
   = (Json 500 [(''error'', JStr ''Internal server error''),
                (''details'', JStr ''An error occurred with our connection to Stripe'')],
      (store0 [sub_at ''sub_paid'' ''cus_1'' ''active'' 3 True])
        \<lparr>outage := [''subscriptions.update'']\<rparr>,
      [SubscriptionsRetrieve ''sub_paid'', SubscriptionsUpdate ''sub_paid'' False])"
  by (simp add: run_defs)

text \<open>
  C8, amended. For every located subscription a request with \<open>action = reactivate\<close>
  makes one provider write, the update with \<^verbatim>\<open>cancel_at_period_end: false\<close> (no refund and
  no cancellation, whatever \<open>autoRefund\<close> says), and never reads the subscription's
  current flag. When the update succeeds the response is "Subscription reactivated
  successfully" with the fields of the subscription the provider returns; when the update
  fails the response is the 500 of the outer catch. On a provider that applies the update
  (the in-memory one, with nothing failing) the flag is cleared, the response does not
  depend on whether a cancellation was pending, and a second application returns the
  same response and leaves the same state.
\<close>

theorem reactivation_idempotent:
  assumes "reaches_lookup e r"
    and "locate_subscription ''No subscription found'' P w r = (Inr (Inr s), reads)"
    and "action r = Some ''reactivate''"
    and "List.find (\<lambda>y. sub_id y = i) (subs st) = Some x" and "outage st = []" and "i \<noteq> []"
  shows "cancel_subscription_handler P e now r w
         = (case subscriptions_update P w (sub_id s) False of
              (Inl ex, w') \<Rightarrow>
                (internal_server_error ex, w', reads @ [SubscriptionsUpdate (sub_id s) False])
            | (Inr u, w') \<Rightarrow>
                (update_response True u, w',
                 reads @ [SubscriptionsUpdate (sub_id s) False, SendEmail Reactivated]))
         \<and> cancel_subscription_handler store_stripe live_env now
             (post\<lparr>subscriptionId := Some i, action := Some ''reactivate''\<rparr>) st
           = (update_response True (x\<lparr>cancel_at_period_end := False\<rparr>),
              st\<lparr>subs := map (\<lambda>y. if sub_id y = i then y\<lparr>cancel_at_period_end := False\<rparr> else y)
                            (subs st)\<rparr>,
              [SubscriptionsRetrieve i, SubscriptionsUpdate i False, SendEmail Reactivated])
         \<and> cancel_subscription_handler store_stripe live_env now
             (post\<lparr>subscriptionId := Some i, action := Some ''reactivate''\<rparr>)
             (st\<lparr>subs := map (\<lambda>y. if sub_id y = i then y\<lparr>cancel_at_period_end := False\<rparr> else y)
                            (subs st)\<rparr>)
           = (update_response True (x\<lparr>cancel_at_period_end := False\<rparr>),
              st\<lparr>subs := map (\<lambda>y. if sub_id y = i then y\<lparr>cancel_at_period_end := False\<rparr> else y)
                            (subs st)\<rparr>,
              [SubscriptionsRetrieve i, SubscriptionsUpdate i False, SendEmail Reactivated])"
  using reactivate_update [OF assms(1-3)] store_reactivate_once [OF assms(4-6)]
    store_reactivate_twice [OF assms(4-6)]
  by simp

text \<open>
  A subscription with a pending cancellation is reactivated, then reactivated again:
  both responses are the same, and the flag is off after the first.
\<close>

theorem reactivation_idempotent_witness:
  "cancel_subscription_handler store_stripe live_env now0
     (post\<lparr>subscriptionId := Some ''sub_paid'', action := Some ''reactivate''\<rparr>)
     (store0 [sub_at ''sub_paid'' ''cus_1'' ''active'' 3 True])
   = (Json 200
        [(''success'', JBool True),
         (''message'', JStr ''Subscription reactivated successfully''),
         (''subscriptionId'', JStr ''sub_paid''),
         (''cancelAtPeriodEnd'', JBool False),
         (''currentPeriodEnd'', JNum 1730332800)],
      store0 [sub_at ''sub_paid'' ''cus_1'' ''active'' 3 False],
      [SubscriptionsRetrieve ''sub_paid'', SubscriptionsUpdate ''sub_paid'' False,
       SendEmail Reactivated])
   \<and> cancel_subscription_handler store_stripe live_env now0
     (post\<lparr>subscriptionId := Some ''sub_paid'', action := Some ''reactivate''\<rparr>)
     (store0 [sub_at ''sub_paid'' ''cus_1'' ''active'' 3 False])
   = (Json 200
        [(''success'', JBool True),
         (''message'', JStr ''Subscription reactivated successfully''),
         (''subscriptionId'', JStr ''sub_paid''),
         (''cancelAtPeriodEnd'', JBool False),
         (''currentPeriodEnd'', JNum 1730332800)],
      store0 [sub_at ''sub_paid'' ''cus_1'' ''active'' 3 False],
      [SubscriptionsRetrieve ''sub_paid'', SubscriptionsUpdate ''sub_paid'' False,
       SendEmail Reactivated])"
  using reactivation_idempotent [where e = live_env
      and r = "post\<lparr>subscriptionId := Some ''sub_paid'', action := Some ''reactivate''\<rparr>"
      and P = store_stripe and w = "store0 [sub_at ''sub_paid'' ''cus_1'' ''active'' 3 True]"
      and s = "sub_at ''sub_paid'' ''cus_1'' ''active'' 3 True"
      and reads = "[SubscriptionsRetrieve ''sub_paid'']" and now = now0
      and i = "''sub_paid''" and st = "store0 [sub_at ''sub_paid'' ''cus_1'' ''active'' 3 True]"
      and x = "sub_at ''sub_paid'' ''cus_1'' ''active'' 3 True"]
  by (simp add: run_defs)

section \<open>Trials\<close>

lemma locate_found_any_message:
  "locate_subscription m P w r = (Inr (Inr s), reads)
     \<Longrightarrow> locate_subscription m' P w r = (Inr (Inr s), reads)"
  by (auto simp add: locate_subscription_def split: sum.splits list.splits if_splits)

lemma within_not_expired: "within_refund_window now s \<Longrightarrow> \<not> refund_window_expired now s"
  by (simp add: within_refund_window_def refund_window_expired_def)

lemma trial_refund_request:
  assumes "reaches_lookup e r"
    and "locate_subscription ''No subscription found'' P w r = (Inr (Inr s), reads)"
    and "status s = ''trialing''" and "within_refund_window now s"
    and "invoices_list P w (sub_id s) 1 None = Inr (iv # ivs)"
  shows "process_refund_handler P e now r w
         = (case subscriptions_cancel P w (sub_id s) of
              (Inl ex, w') \<Rightarrow>
                (internal_server_error ex, w',
                 reads @ [InvoicesList (sub_id s) 1 None, SubscriptionsCancel (sub_id s)])
            | (Inr cancelled, w') \<Rightarrow>
                (Json 200 [(''success'', JBool True),
                           (''message'', JStr ''Trial subscription cancelled''),
                           (''subscriptionId'', JStr (sub_id s)),
                           (''cancelled'', JBool True)],
                 w',
                 reads @ [InvoicesList (sub_id s) 1 None, SubscriptionsCancel (sub_id s),
                          SendEmail TrialCancellation]))"
proof -
  have loc: "locate_subscription ''No subscription found for this customer'' P w r
             = (Inr (Inr s), reads)"
    using assms(2) by (rule locate_found_any_message)
  have inside: "\<not> refund_window_expired now s"
    using assms(4) by (rule within_not_expired)
  show ?thesis
    using assms(3,5) inside
    by (simp add: refund_handler_located [OF assms(1) loc] refund_located_def
        split: prod.splits sum.splits)
qed

lemma trial_auto_refund:
  assumes "reaches_lookup e r"
    and "locate_subscription ''No subscription found'' P w r = (Inr (Inr s), reads)"
    and "within_refund_window now s"
    and "autoRefund r" and "action r \<noteq> Some ''reactivate''"
    and "invoices_list P w (sub_id s) 1 (Some ''paid'') = Inr ivs"
    and "ivs = [] \<or> \<not> truthy (charge (hd ivs))"
  shows "cancel_subscription_handler P e now r w
         = (case subscriptions_update P w (sub_id s) True of
              (Inl ex, w') \<Rightarrow>
                (internal_server_error ex, w',
                 reads @ [InvoicesList (sub_id s) 1 (Some ''paid''),
                          SubscriptionsUpdate (sub_id s) True])
            | (Inr u, w') \<Rightarrow>
                (update_response False u, w',
                 reads @ [InvoicesList (sub_id s) 1 (Some ''paid''),
                          SubscriptionsUpdate (sub_id s) True, SendEmail CancellationRequest]))"
proof -
  have ar: "auto_refund P now r s w = (None, w, [InvoicesList (sub_id s) 1 (Some ''paid'')])"
    using assms(3-7) by (cases ivs) (auto simp add: auto_refund_def)
  show ?thesis
    using assms(5)
    by (simp add: cancel_handler_located [OF assms(1,2)] cancel_located_def ar
        period_end_update_def split: prod.splits sum.splits)
qed

lemma trial_auto_refund_charged:
  assumes "reaches_lookup e r"
    and "locate_subscription ''No subscription found'' P w r = (Inr (Inr s), reads)"
    and "within_refund_window now s"
    and "autoRefund r" and "action r \<noteq> Some ''reactivate''"
    and "invoices_list P w (sub_id s) 1 (Some ''paid'') = Inr (iv # ivs)"
    and "truthy (charge iv)"
  shows "RefundsCreate (str_of (charge iv)) ''requested_by_customer''
           \<in> set (snd (snd (cancel_subscription_handler P e now r w)))"
  using assms(3-7)
  by (simp add: cancel_handler_located [OF assms(1,2)] cancel_located_def auto_refund_def
      period_end_update_def Let_def split: prod.splits sum.splits option.splits)

text \<open>
  C3, as the code behaves. The claim does not hold of the cancel handler: its
  auto-refund block has no trial branch, while the refund handler has one ("If
  subscription is in trial, cancel it instead of refunding"). For a located trialing
  subscription inside the window (its dates in the range of a \<^verbatim>\<open>Date\<close>):
  \<^item> the refund handler, given at least one invoice, creates no refund and cancels at
    once, answering "Trial subscription cancelled" when the cancellation succeeds;
  \<^item> the cancel handler with \<open>autoRefund\<close>, when no paid invoice with a charge is
    listed, never calls the immediate cancellation: it makes the period-end update and
    answers as a standard cancellation;
  \<^item> the cancel handler with \<open>autoRefund\<close>, when a paid invoice with a charge is listed,
    creates a refund for that charge although the subscription is a trial.
\<close>

theorem trial_cancellation_by_endpoint:
  assumes "reaches_lookup e r"
    and "locate_subscription ''No subscription found'' P w r = (Inr (Inr s), reads)"
    and "status s = ''trialing''" and "within_refund_window now s"
  shows "(\<forall>iv ivs. invoices_list P w (sub_id s) 1 None = Inr (iv # ivs) \<longrightarrow>
            process_refund_handler P e now r w
            = (case subscriptions_cancel P w (sub_id s) of
                 (Inl ex, w') \<Rightarrow>
                   (internal_server_error ex, w',
                    reads @ [InvoicesList (sub_id s) 1 None, SubscriptionsCancel (sub_id s)])
               | (Inr cancelled, w') \<Rightarrow>
                   (Json 200 [(''success'', JBool True),
                              (''message'', JStr ''Trial subscription cancelled''),
                              (''subscriptionId'', JStr (sub_id s)),
                              (''cancelled'', JBool True)],
                    w',
                    reads @ [InvoicesList (sub_id s) 1 None, SubscriptionsCancel (sub_id s),
                             SendEmail TrialCancellation])))
         \<and> (\<forall>ivs. autoRefund r \<and> action r \<noteq> Some ''reactivate''
                \<and> invoices_list P w (sub_id s) 1 (Some ''paid'') = Inr ivs
                \<and> (ivs = [] \<or> \<not> truthy (charge (hd ivs))) \<longrightarrow>
            cancel_subscription_handler P e now r w
            = (case subscriptions_update P w (sub_id s) True of
                 (Inl ex, w') \<Rightarrow>
                   (internal_server_error ex, w',
                    reads @ [InvoicesList (sub_id s) 1 (Some ''paid''),
                             SubscriptionsUpdate (sub_id s) True])
               | (Inr u, w') \<Rightarrow>
                   (update_response False u, w',
                    reads @ [InvoicesList (sub_id s) 1 (Some ''paid''),
                             SubscriptionsUpdate (sub_id s) True,
                             SendEmail CancellationRequest])))
         \<and> (\<forall>iv ivs. autoRefund r \<and> action r \<noteq> Some ''reactivate''
                \<and> invoices_list P w (sub_id s) 1 (Some ''paid'') = Inr (iv # ivs)
                \<and> truthy (charge iv) \<longrightarrow>
            RefundsCreate (str_of (charge iv)) ''requested_by_customer''
              \<in> set (snd (snd (cancel_subscription_handler P e now r w))))"
proof (intro conjI allI impI)
  fix iv ivs
  assume "invoices_list P w (sub_id s) 1 None = Inr (iv # ivs)"
  then show "process_refund_handler P e now r w
            = (case subscriptions_cancel P w (sub_id s) of
                 (Inl ex, w') \<Rightarrow>
                   (internal_server_error ex, w',
                    reads @ [InvoicesList (sub_id s) 1 None, SubscriptionsCancel (sub_id s)])
               | (Inr cancelled, w') \<Rightarrow>
                   (Json 200 [(''success'', JBool True),
                              (''message'', JStr ''Trial subscription cancelled''),
                              (''subscriptionId'', JStr (sub_id s)),
                              (''cancelled'', JBool True)],
                    w',
                    reads @ [InvoicesList (sub_id s) 1 None, SubscriptionsCancel (sub_id s),
                             SendEmail TrialCancellation]))"
    by (rule trial_refund_request [OF assms])
next
  fix ivs
  assume a: "autoRefund r \<and> action r \<noteq> Some ''reactivate''
                \<and> invoices_list P w (sub_id s) 1 (Some ''paid'') = Inr ivs
                \<and> (ivs = [] \<or> \<not> truthy (charge (hd ivs)))"
  show "cancel_subscription_handler P e now r w
            = (case subscriptions_update P w (sub_id s) True of
                 (Inl ex, w') \<Rightarrow>
                   (internal_server_error ex, w',
                    reads @ [InvoicesList (sub_id s) 1 (Some ''paid''),
                             SubscriptionsUpdate (sub_id s) True])
               | (Inr u, w') \<Rightarrow>
                   (update_response False u, w',
                    reads @ [InvoicesList (sub_id s) 1 (Some ''paid''),
                             SubscriptionsUpdate (sub_id s) True,
                             SendEmail CancellationRequest]))"
    using a by (intro trial_auto_refund [OF assms(1,2,4)]) auto
next
  fix iv ivs
  assume a: "autoRefund r \<and> action r \<noteq> Some ''reactivate''
                \<and> invoices_list P w (sub_id s) 1 (Some ''paid'') = Inr (iv # ivs)
                \<and> truthy (charge iv)"
  show "RefundsCreate (str_of (charge iv)) ''requested_by_customer''
              \<in> set (snd (snd (cancel_subscription_handler P e now r w)))"
    using a by (intro trial_auto_refund_charged [OF assms(1,2,4)]) auto
qed

text \<open>
  A trial started one day ago, whose only invoice is the paid zero-amount one without a
  charge, with \<open>autoRefund\<close>, on both endpoints: the refund endpoint cancels it at once
  (its status becomes \<open>canceled\<close>); the cancel endpoint sets it to cancel at period end,
  calls no \<^verbatim>\<open>subscriptions.cancel\<close> and leaves its status \<open>trialing\<close>.
\<close>

theorem trial_cancellation_by_endpoint_witness:
  "process_refund_handler store_stripe live_env now0
       (post\<lparr>subscriptionId := Some ''sub_trial'', autoRefund := True\<rparr>)
       ((store0 [sub_at ''sub_trial'' ''cus_1'' ''trialing'' 1 False])
          \<lparr>invs := [(''sub_trial'', ''paid'', 0, \<lparr>charge = None\<rparr>)]\<rparr>)
     = (Json 200 [(''success'', JBool True),
                  (''message'', JStr ''Trial subscription cancelled''),
                  (''subscriptionId'', JStr ''sub_trial''),
                  (''cancelled'', JBool True)],
        (store0 [sub_at ''sub_trial'' ''cus_1'' ''canceled'' 1 False])
          \<lparr>invs := [(''sub_trial'', ''paid'', 0, \<lparr>charge = None\<rparr>)]\<rparr>,
        [SubscriptionsRetrieve ''sub_trial'', InvoicesList ''sub_trial'' 1 None,
         SubscriptionsCancel ''sub_trial'', SendEmail TrialCancellation])
   \<and> cancel_subscription_handler store_stripe live_env now0
       (post\<lparr>subscriptionId := Some ''sub_trial'', autoRefund := True\<rparr>)
       ((store0 [sub_at ''sub_trial'' ''cus_1'' ''trialing'' 1 False])
          \<lparr>invs := [(''sub_trial'', ''paid'', 0, \<lparr>charge = None\<rparr>)]\<rparr>)
     = (Json 200
          [(''success'', JBool True),
           (''message'', JStr ''Subscription will be cancelled at the end of the current period''),
           (''subscriptionId'', JStr ''sub_trial''),
           (''cancelAtPeriodEnd'', JBool True),
           (''currentPeriodEnd'', JNum 1730505600)],
        (store0 [sub_at ''sub_trial'' ''cus_1'' ''trialing'' 1 True])
          \<lparr>invs := [(''sub_trial'', ''paid'', 0, \<lparr>charge = None\<rparr>)]\<rparr>,
        [SubscriptionsRetrieve ''sub_trial'', InvoicesList ''sub_trial'' 1 (Some ''paid''),
         SubscriptionsUpdate ''sub_trial'' True, SendEmail CancellationRequest])
   \<and> RefundsCreate ''ch_t'' ''requested_by_customer''
       \<in> set (snd (snd (cancel_subscription_handler store_stripe live_env now0
            (post\<lparr>subscriptionId := Some ''sub_trial'', autoRefund := True\<rparr>)
            ((store0 [sub_at ''sub_trial'' ''cus_1'' ''trialing'' 1 False])
               \<lparr>invs := [(''sub_trial'', ''paid'', 499, \<lparr>charge = Some ''ch_t''\<rparr>)]\<rparr>))))"
  using trial_cancellation_by_endpoint [where e = live_env
      and r = "post\<lparr>subscriptionId := Some ''sub_trial'', autoRefund := True\<rparr>"
      and P = store_stripe
      and w = "(store0 [sub_at ''sub_trial'' ''cus_1'' ''trialing'' 1 False])
                 \<lparr>invs := [(''sub_trial'', ''paid'', 0, \<lparr>charge = None\<rparr>)]\<rparr>"
      and s = "sub_at ''sub_trial'' ''cus_1'' ''trialing'' 1 False"
      and reads = "[SubscriptionsRetrieve ''sub_trial'']" and now = now0]
    trial_cancellation_by_endpoint [where e = live_env
      and r = "post\<lparr>subscriptionId := Some ''sub_trial'', autoRefund := True\<rparr>"
      and P = store_stripe
      and w = "(store0 [sub_at ''sub_trial'' ''cus_1'' ''trialing'' 1 False])
                 \<lparr>invs := [(''sub_trial'', ''paid'', 499, \<lparr>charge = Some ''ch_t''\<rparr>)]\<rparr>"
      and s = "sub_at ''sub_trial'' ''cus_1'' ''trialing'' 1 False"
      and reads = "[SubscriptionsRetrieve ''sub_trial'']" and now = now0]
  by (simp add: run_defs)

section \<open>Lookup by e-mail\<close>

lemma find_append_first:
  "List.find p (xs @ ys) = (case List.find p xs of None \<Rightarrow> List.find p ys | Some x \<Rightarrow> Some x)"
  by (induction xs) auto

lemma find_active_enumerates:
  assumes "\<forall>c \<in> set cs. \<exists>ss. subscriptions_list P w (cus_id c) 10 = Inr ss"
  shows "fst (find_active_subscription P w cs)
         = Inr (List.find is_active (concat (map (listed P w) cs)))"
  using assms
proof (induction cs)
  case Nil
  then show ?case by simp
next
  case (Cons c cs)
  then obtain ss where ss: "subscriptions_list P w (cus_id c) 10 = Inr ss" by auto
  have rest: "fst (find_active_subscription P w cs)
         = Inr (List.find is_active (concat (map (listed P w) cs)))"
    using Cons by simp
  have first: "listed P w c = ss"
    using ss by (simp add: listed_def)
  show ?case
    using ss rest
    by (auto simp add: first find_append_first split: option.splits prod.splits)
qed

lemma license_lookup_by_email:
  assumes "subscriptions_retrieve P w key = Inl ex"
    and "customers_list P w (trim (toLowerCase key)) 10 = Inr cs"
    and "\<forall>c \<in> set cs. \<exists>ss. subscriptions_list P w (cus_id c) 10 = Inr ss"
  shows "fst (locate_license P w key) = Inr (List.find is_active (concat (map (listed P w) cs)))"
  using assms(1,2) find_active_enumerates [OF assms(3)]
  by (auto simp add: locate_license_def split: prod.splits)

lemma license_not_found_iff:
  assumes "req_method r = ''POST''" and "truthy (licenseKey r)" and "truthy (stripeSecretKey e)"
    and "fst (locate_license P w (str_of (licenseKey r))) = Inr found"
  shows "(fst (verify_license_handler P e now r w)
          = Json 404 [(''valid'', JBool False),
                      (''error'', JStr ''License key not found or subscription not active'')])
         = (found = None)"
proof (cases "locate_license P w (str_of (licenseKey r))")
  case (Pair res calls)
  with assms(4) have res: "res = Inr found" by simp
  show ?thesis
    using assms(1-3) Pair res
    by (cases found)
      (auto simp add: verify_license_handler_def license_valid_body_def customerEmail_unbound
        license_error_def)
qed

lemma cancel_lookup_by_email:
  assumes "\<not> truthy (subscriptionId r)"
    and "customers_list P w (str_of (email r)) 1 = Inr (c # cs)"
    and "subscriptions_list P w (cus_id c) 1 = Inr (s # ss)"
  shows "locate_subscription m P w r
         = (Inr (Inr s), [CustomersList (str_of (email r)) 1, SubscriptionsList (cus_id c) 1])"
  using assms by (simp add: locate_subscription_def)

text \<open>
  The failing input of C4, run. Two customers share an address; the first has a canceled
  subscription, the second an active one. Given the address, the lookup of the cancel
  handler (the refund handler has the same) returns the canceled subscription of the
  first customer; given the same address with capitals and surrounding spaces, it
  answers "Customer not found".
\<close>

lemma cancel_lookup_first_listed:
  "fst (locate_subscription ''No subscription found'' store_stripe
         ((store0 [sub_at ''sub_old'' ''cus_1'' ''canceled'' 300 False,
                   sub_at ''sub_new'' ''cus_2'' ''active'' 3 False])
            \<lparr>custs := [\<lparr>cus_id = ''cus_1'', cus_email = ''ann@example.com''\<rparr>,
                       \<lparr>cus_id = ''cus_2'', cus_email = ''ann@example.com''\<rparr>]\<rparr>)
         (post\<lparr>email := Some ''ann@example.com''\<rparr>))
     = Inr (Inr (sub_at ''sub_old'' ''cus_1'' ''canceled'' 300 False))
   \<and> \<not> is_active (sub_at ''sub_old'' ''cus_1'' ''canceled'' 300 False)
   \<and> is_active (sub_at ''sub_new'' ''cus_2'' ''active'' 3 False)
   \<and> fst (locate_subscription ''No subscription found'' store_stripe
         ((store0 [sub_at ''sub_old'' ''cus_1'' ''canceled'' 300 False,
                   sub_at ''sub_new'' ''cus_2'' ''active'' 3 False])
            \<lparr>custs := [\<lparr>cus_id = ''cus_1'', cus_email = ''ann@example.com''\<rparr>,
                       \<lparr>cus_id = ''cus_2'', cus_email = ''ann@example.com''\<rparr>]\<rparr>)
         (post\<lparr>email := Some '' Ann@Example.COM ''\<rparr>))
     = Inr (Inl (Json 404 [(''error'', JStr ''Customer not found'')]))"
  by (simp add: run_defs)

text \<open>
  C4, as the code behaves. The claim does not hold of the cancel and refund handlers,
  which kept the lookup that the license check replaced ("Normalize email", "Get more
  customers in case of duplicates", "Look for active or trialing subscriptions").
  \<^item> In the license check, when the key is not a retrievable subscription id, the key
    lower-cased and trimmed is the e-mail given to the provider (at most ten customers);
    the customers are taken in order, each customer's subscriptions are listed (at most
    ten), and the result is the first active or trialing subscription in that
    enumeration; the handler answers 404 exactly when there is none.
  \<^item> The cancel and refund handlers pass the e-mail as given, take only the first
    customer listed and return that customer's first listed subscription whatever its
    status.
\<close>

theorem email_lookup_by_endpoint:
  assumes "subscriptions_retrieve P w key = Inl ex"
    and "customers_list P w (trim (toLowerCase key)) 10 = Inr cs"
    and "\<forall>c \<in> set cs. \<exists>ss. subscriptions_list P w (cus_id c) 10 = Inr ss"
  shows "fst (locate_license P w key) = Inr (List.find is_active (concat (map (listed P w) cs)))
         \<and> (req_method r = ''POST'' \<and> licenseKey r = Some key \<and> key \<noteq> []
              \<and> truthy (stripeSecretKey e) \<longrightarrow>
            (fst (verify_license_handler P e now r w)
             = Json 404 [(''valid'', JBool False),
                         (''error'', JStr ''License key not found or subscription not active'')])
            = (List.find is_active (concat (map (listed P w) cs)) = None))
         \<and> (\<forall>c rest s ss.
              \<not> truthy (subscriptionId q)
              \<and> customers_list P w (str_of (email q)) 1 = Inr (c # rest)
              \<and> subscriptions_list P w (cus_id c) 1 = Inr (s # ss) \<longrightarrow>
            locate_subscription m P w q
            = (Inr (Inr s), [CustomersList (str_of (email q)) 1, SubscriptionsList (cus_id c) 1]))"
proof (intro conjI allI impI)
  show found: "fst (locate_license P w key)
        = Inr (List.find is_active (concat (map (listed P w) cs)))"
    using assms by (rule license_lookup_by_email)
  assume a: "req_method r = ''POST'' \<and> licenseKey r = Some key \<and> key \<noteq> []
              \<and> truthy (stripeSecretKey e)"
  then have "fst (locate_license P w (str_of (licenseKey r)))
             = Inr (List.find is_active (concat (map (listed P w) cs)))"
    using found by (simp add: str_of_def)
  then show "(fst (verify_license_handler P e now r w)
             = Json 404 [(''valid'', JBool False),
                         (''error'', JStr ''License key not found or subscription not active'')])
            = (List.find is_active (concat (map (listed P w) cs)) = None)"
    using a by (intro license_not_found_iff) (auto simp add: truthy_def)
next
  fix c rest s ss
  assume "\<not> truthy (subscriptionId q)
              \<and> customers_list P w (str_of (email q)) 1 = Inr (c # rest)
              \<and> subscriptions_list P w (cus_id c) 1 = Inr (s # ss)"
  then show "locate_subscription m P w q
            = (Inr (Inr s), [CustomersList (str_of (email q)) 1, SubscriptionsList (cus_id c) 1])"
    by (intro cancel_lookup_by_email) auto
qed

lemma normalised_example: "trim (toLowerCase '' Ann@Example.COM '') = ''ann@example.com''"
  by code_simp

text \<open>
  The two customers of the failing input. The license check, given the address with
  capitals and spaces, finds the active subscription of the second customer; with only
  the canceled subscription in the store it answers 404; the cancel lookup returns the
  canceled subscription.
\<close>

theorem email_lookup_by_endpoint_witness:
  "fst (locate_license store_stripe
         ((store0 [sub_at ''sub_old'' ''cus_1'' ''canceled'' 300 False,
                   sub_at ''sub_new'' ''cus_2'' ''active'' 3 False])
            \<lparr>custs := [\<lparr>cus_id = ''cus_1'', cus_email = ''ann@example.com''\<rparr>,
                       \<lparr>cus_id = ''cus_2'', cus_email = ''ann@example.com''\<rparr>]\<rparr>)
         '' Ann@Example.COM '')
     = Inr (Some (sub_at ''sub_new'' ''cus_2'' ''active'' 3 False))
   \<and> fst (verify_license_handler store_stripe live_env now0
         (post\<lparr>licenseKey := Some '' Ann@Example.COM ''\<rparr>)
         ((store0 [sub_at ''sub_old'' ''cus_1'' ''canceled'' 300 False])
            \<lparr>custs := [\<lparr>cus_id = ''cus_1'', cus_email = ''ann@example.com''\<rparr>,
                       \<lparr>cus_id = ''cus_2'', cus_email = ''ann@example.com''\<rparr>]\<rparr>))
     = Json 404 [(''valid'', JBool False),
                 (''error'', JStr ''License key not found or subscription not active'')]
   \<and> locate_subscription ''No subscription found'' store_stripe
         ((store0 [sub_at ''sub_old'' ''cus_1'' ''canceled'' 300 False,
                   sub_at ''sub_new'' ''cus_2'' ''active'' 3 False])
            \<lparr>custs := [\<lparr>cus_id = ''cus_1'', cus_email = ''ann@example.com''\<rparr>,
                       \<lparr>cus_id = ''cus_2'', cus_email = ''ann@example.com''\<rparr>]\<rparr>)
         (post\<lparr>email := Some ''ann@example.com''\<rparr>)
     = (Inr (Inr (sub_at ''sub_old'' ''cus_1'' ''canceled'' 300 False)),
        [CustomersList ''ann@example.com'' 1, SubscriptionsList ''cus_1'' 1])"
  using email_lookup_by_endpoint [where P = store_stripe
      and w = "(store0 [sub_at ''sub_old'' ''cus_1'' ''canceled'' 300 False,
                        sub_at ''sub_new'' ''cus_2'' ''active'' 3 False])
                 \<lparr>custs := [\<lparr>cus_id = ''cus_1'', cus_email = ''ann@example.com''\<rparr>,
                            \<lparr>cus_id = ''cus_2'', cus_email = ''ann@example.com''\<rparr>]\<rparr>"
      and key = "'' Ann@Example.COM ''"
      and ex = "Exn ''No such subscription:  Ann@Example.COM ''"
      and cs = "[\<lparr>cus_id = ''cus_1'', cus_email = ''ann@example.com''\<rparr>,
                 \<lparr>cus_id = ''cus_2'', cus_email = ''ann@example.com''\<rparr>]"
      and q = "post\<lparr>email := Some ''ann@example.com''\<rparr>" and m = "''No subscription found''"
      and r = post and e = live_env and now = now0]
    email_lookup_by_endpoint [where P = store_stripe
      and w = "(store0 [sub_at ''sub_old'' ''cus_1'' ''canceled'' 300 False])
                 \<lparr>custs := [\<lparr>cus_id = ''cus_1'', cus_email = ''ann@example.com''\<rparr>,
                            \<lparr>cus_id = ''cus_2'', cus_email = ''ann@example.com''\<rparr>]\<rparr>"
      and key = "'' Ann@Example.COM ''"
      and ex = "Exn ''No such subscription:  Ann@Example.COM ''"
      and cs = "[\<lparr>cus_id = ''cus_1'', cus_email = ''ann@example.com''\<rparr>,
                 \<lparr>cus_id = ''cus_2'', cus_email = ''ann@example.com''\<rparr>]"
      and q = post and m = "''No subscription found''"
      and r = "post\<lparr>licenseKey := Some '' Ann@Example.COM ''\<rparr>" and e = live_env and now = now0]
  by (simp add: normalised_example run_defs)

end
